theory Spec2Isabelle
  imports Complex_Main "HOL-Library.Word"
begin

unbundle bit_operations_syntax

section \<open>Python values used by the telemetry pipeline\<close>

text \<open>
  A Python \<open>float\<close> is an IEEE-754 binary64 value; it is modelled by its 64-bit pattern, so
  that NaN, the infinities and signed zero are values like any other. \<open>bytes\<close> is a list of
  8-bit words. Exceptions are values of type \<open>error\<close>.
\<close>

type_synonym byte = "8 word"
type_synonym pyfloat = "64 word"
type_synonym float32 = "32 word"

datatype error =
    StructError | OverflowError | ValueError | MalformedRecordError | CollaboratorError string

subsection \<open>binary64 and binary32 fields\<close>

definition sign64 :: "pyfloat \<Rightarrow> bool" where
  "sign64 w = (2 ^ 63 \<le> unat w)"

definition exp64 :: "pyfloat \<Rightarrow> nat" where
  "exp64 w = (unat w div 2 ^ 52) mod 2 ^ 11"

definition man64 :: "pyfloat \<Rightarrow> nat" where
  "man64 w = unat w mod 2 ^ 52"

definition is_nan64 :: "pyfloat \<Rightarrow> bool" where
  "is_nan64 w = (exp64 w = 2047 \<and> man64 w \<noteq> 0)"

definition is_inf64 :: "pyfloat \<Rightarrow> bool" where
  "is_inf64 w = (exp64 w = 2047 \<and> man64 w = 0)"

definition is_finite64 :: "pyfloat \<Rightarrow> bool" where
  "is_finite64 w = (exp64 w < 2047)"

definition mag64 :: "pyfloat \<Rightarrow> real" where
  "mag64 w = (if exp64 w = 0 then real (man64 w) * 2 / 2 ^ 1075
              else real (2 ^ 52 + man64 w) * 2 ^ exp64 w / 2 ^ 1075)"

definition valof64 :: "pyfloat \<Rightarrow> real" where
  "valof64 w = (if sign64 w then - mag64 w else mag64 w)"

definition sign32 :: "float32 \<Rightarrow> bool" where
  "sign32 w = (2 ^ 31 \<le> unat w)"

definition exp32 :: "float32 \<Rightarrow> nat" where
  "exp32 w = (unat w div 2 ^ 23) mod 2 ^ 8"

definition man32 :: "float32 \<Rightarrow> nat" where
  "man32 w = unat w mod 2 ^ 23"

definition is_inf32 :: "float32 \<Rightarrow> bool" where
  "is_inf32 w = (exp32 w = 255 \<and> man32 w = 0)"

definition is_finite32 :: "float32 \<Rightarrow> bool" where
  "is_finite32 w = (exp32 w < 255)"

definition mag32 :: "float32 \<Rightarrow> real" where
  "mag32 w = (if exp32 w = 0 then real (man32 w) * 2 / 2 ^ 150
              else real (2 ^ 23 + man32 w) * 2 ^ exp32 w / 2 ^ 150)"

definition valof32 :: "float32 \<Rightarrow> real" where
  "valof32 w = (if sign32 w then - mag32 w else mag32 w)"

subsection \<open>Narrowing a double to a single\<close>

text \<open>
  \<open>rne_shift M k\<close> is \<open>M / 2 ^ k\<close> rounded to the nearest integer, ties to even: the rounding
  of the C conversion \<^verbatim>\<open>(float)x\<close> that \<^verbatim>\<open>struct.pack\<close> applies for the format \<^verbatim>\<open>f\<close>.
\<close>

definition rne_shift :: "nat \<Rightarrow> nat \<Rightarrow> nat" where
  "rne_shift M k =
     (let q = M div 2 ^ k; r = M mod 2 ^ k
      in if 2 ^ k < 2 * r \<or> (2 * r = 2 ^ k \<and> odd q) then q + 1 else q)"

text \<open>
  \<open>narrow_mag e m\<close> is the magnitude (exponent and fraction bits) of the binary32 nearest
  to the finite double with exponent field \<open>e\<close> and fraction \<open>m\<close>: doubles below the binary32
  range round to zero or to a subnormal, doubles that round beyond the largest binary32
  give the pattern of infinity. A carry of the rounding into the exponent is the addition.
  \<open>narrow\<close> adds the sign; an infinity stays one, a NaN becomes a quiet NaN with the top
  bits of its payload.
\<close>

definition narrow_mag :: "nat \<Rightarrow> nat \<Rightarrow> nat" where
  "narrow_mag e m =
     (if e = 0 then 0
      else if 897 \<le> e then min (255 * 2 ^ 23) ((e - 897) * 2 ^ 23 + rne_shift (2 ^ 52 + m) 29)
      else rne_shift (2 ^ 52 + m) (926 - e))"

definition narrow :: "pyfloat \<Rightarrow> float32" where
  "narrow w =
     (let s = (if sign64 w then 2 ^ 31 else 0); e = exp64 w; m = man64 w
      in if e = 2047 then
           (if m = 0 then of_nat (s + 255 * 2 ^ 23)
            else of_nat (s + 255 * 2 ^ 23 + 2 ^ 22 + (m div 2 ^ 29) mod 2 ^ 22))
         else of_nat (s + narrow_mag e m))"

subsection \<open>\<^verbatim>\<open>struct.pack\<close> with the format \<^verbatim>\<open>!Iffffd\<close>\<close>

fun pack_be :: "nat \<Rightarrow> nat \<Rightarrow> byte list" where
  "pack_be 0 n = []"
| "pack_be (Suc k) n = of_nat (n div 256 ^ k) # pack_be k n"

definition unpack_be :: "byte list \<Rightarrow> nat" where
  "unpack_be bs = foldl (\<lambda>a b. a * 256 + unat b) 0 bs"

text \<open>
  The formats \<^verbatim>\<open>I\<close>, \<^verbatim>\<open>f\<close> and \<^verbatim>\<open>d\<close> in network byte order. \<^verbatim>\<open>I\<close> raises \<^verbatim>\<open>struct.error\<close> outside
  the unsigned 32-bit range; \<^verbatim>\<open>f\<close> raises \<^verbatim>\<open>OverflowError\<close> when a finite double narrows to
  an infinity.
\<close>

definition pack_I :: "int \<Rightarrow> error + byte list" where
  "pack_I v = (if 0 \<le> v \<and> v < 2 ^ 32 then Inr (pack_be 4 (nat v)) else Inl StructError)"

definition pack_f :: "pyfloat \<Rightarrow> error + byte list" where
  "pack_f x =
     (let y = narrow x
      in if is_inf32 y \<and> \<not> is_inf64 x then Inl OverflowError
         else Inr (pack_be 4 (unat y)))"

definition pack_d :: "pyfloat \<Rightarrow> byte list" where
  "pack_d x = pack_be 8 (unat x)"

text \<open>Fields are packed left to right; the first field that cannot be packed raises.\<close>

definition pack_then :: "error + byte list \<Rightarrow> error + byte list \<Rightarrow> error + byte list" where
  "pack_then a b =
     (case a of Inl e \<Rightarrow> Inl e
      | Inr x \<Rightarrow> (case b of Inl e \<Rightarrow> Inl e | Inr y \<Rightarrow> Inr (x @ y)))"

definition struct_pack_Iffffd ::
  "int \<Rightarrow> pyfloat \<Rightarrow> pyfloat \<Rightarrow> pyfloat \<Rightarrow> pyfloat \<Rightarrow> pyfloat \<Rightarrow> error + byte list" where
  "struct_pack_Iffffd i a b c d t =
     pack_then (pack_I i) (pack_then (pack_f a) (pack_then (pack_f b)
       (pack_then (pack_f c) (pack_then (pack_f d) (Inr (pack_d t))))))"

text \<open>
  \<^verbatim>\<open>QuantumSignalProcessor.encode_binary_packet\<close> (satlen.py); the last argument is the value
  \<^verbatim>\<open>time.time()\<close> returns inside the call.
\<close>

definition encode_binary_packet ::
  "int \<Rightarrow> pyfloat \<Rightarrow> pyfloat \<Rightarrow> pyfloat \<Rightarrow> pyfloat \<Rightarrow> pyfloat \<Rightarrow> error + byte list" where
  "encode_binary_packet sat_id lat lon alt doppler clock =
     struct_pack_Iffffd sat_id lat lon alt doppler clock"

text \<open>
  Modelled from the spec: the repository has no decoder (nothing under src/ unpacks a
  packet); \<open>decode\<close> follows section 4.1 of the specification: the inverse of the layout
  above, failing with \<open>MalformedRecordError\<close> when the input is not 28 bytes long. The four
  32-bit fields are returned as binary32 patterns, read by \<open>valof32\<close>.
\<close>

record binary_record =
  rec_identifier :: nat
  rec_latitude :: float32
  rec_longitude :: float32
  rec_altitude :: float32
  rec_doppler :: float32
  rec_timestamp :: pyfloat

definition decode :: "byte list \<Rightarrow> error + binary_record" where
  "decode bs =
     (if length bs \<noteq> 28 then Inl MalformedRecordError
      else Inr \<lparr>rec_identifier = unpack_be (take 4 bs),
                rec_latitude = of_nat (unpack_be (take 4 (drop 4 bs))),
                rec_longitude = of_nat (unpack_be (take 4 (drop 8 bs))),
                rec_altitude = of_nat (unpack_be (take 4 (drop 12 bs))),
                rec_doppler = of_nat (unpack_be (take 4 (drop 16 bs))),
                rec_timestamp = of_nat (unpack_be (drop 20 bs))\<rparr>)"

text \<open>The float32 rounding tolerance: half a unit in the last place of a binary32 value.\<close>

definition float32_tolerance :: "pyfloat \<Rightarrow> real" where
  "float32_tolerance x = max (\<bar>valof64 x\<bar> / 2 ^ 24) (1 / 2 ^ 150)"

subsection \<open>Comparisons of a float with an integer literal\<close>

definition float_less_int :: "pyfloat \<Rightarrow> int \<Rightarrow> bool" where
  "float_less_int x k =
     (\<not> is_nan64 x \<and> (if is_inf64 x then sign64 x else valof64 x < of_int k))"

definition int_less_float :: "int \<Rightarrow> pyfloat \<Rightarrow> bool" where
  "int_less_float k x =
     (\<not> is_nan64 x \<and> (if is_inf64 x then \<not> sign64 x else of_int k < valof64 x))"

definition float_eq_zero :: "pyfloat \<Rightarrow> bool" where
  "float_eq_zero x = (unat x mod 2 ^ 63 = 0)"

subsection \<open>\<^verbatim>\<open>bytes.hex\<close> and \<^verbatim>\<open>bytes.fromhex\<close>\<close>

definition hex_digit :: "nat \<Rightarrow> char" where
  "hex_digit n = ''0123456789abcdef'' ! n"

definition hex :: "byte list \<Rightarrow> string" where
  "hex bs = concat (map (\<lambda>b. [hex_digit (unat b div 16), hex_digit (unat b mod 16)]) bs)"

definition hex_value :: "char \<Rightarrow> nat option" where
  "hex_value c =
     (let n = (of_char c :: nat)
      in if 48 \<le> n \<and> n \<le> 57 then Some (n - 48)
         else if 97 \<le> n \<and> n \<le> 102 then Some (n - 87)
         else if 65 \<le> n \<and> n \<le> 70 then Some (n - 55)
         else None)"

definition is_space :: "char \<Rightarrow> bool" where
  "is_space c = ((of_char c :: nat) \<in> {9, 10, 11, 12, 13, 32})"

fun fromhex :: "string \<Rightarrow> error + byte list" where
  "fromhex [] = Inr []"
| "fromhex [c] = (if is_space c then Inr [] else Inl ValueError)"
| "fromhex (c # d # r) =
     (if is_space c then fromhex (d # r)
      else (case hex_value c of None \<Rightarrow> Inl ValueError
            | Some h \<Rightarrow> (case hex_value d of None \<Rightarrow> Inl ValueError
                | Some l \<Rightarrow> (case fromhex r of Inl e \<Rightarrow> Inl e
                    | Inr bs \<Rightarrow> Inr (of_nat (16 * h + l) # bs)))))"

section \<open>Tracked objects and the ephemeris collaborator\<close>

text \<open>
  An entry of the catalog (\<^verbatim>\<open>EarthSatellite\<close>): its name, its catalog number
  (\<^verbatim>\<open>sat.model.satnum\<close>) and its element set. The propagation library is a collaborator:
  \<open>ephemeris\<close> maps an object and a time to what \<^verbatim>\<open>sat.at(now)\<close>, \<^verbatim>\<open>wgs84.subpoint\<close> and the
  ground-station difference vector return, or to the exception they raise. Times are
  readings of the system clock (seconds since the epoch).
\<close>

record tracked_object =
  sat_name :: string
  satnum :: int
  elements :: string

record observation =
  latitude_degrees :: pyfloat
  longitude_degrees :: pyfloat
  elevation_km :: pyfloat
  distance_km :: pyfloat
  speed_km_per_s :: pyfloat

type_synonym ephemeris = "tracked_object \<Rightarrow> pyfloat \<Rightarrow> error + observation"

text \<open>
  Double-precision arithmetic and \<^verbatim>\<open>math.log10\<close> are the host's; the model takes them as a
  parameter. \<^verbatim>\<open>math.log10\<close> raises \<^verbatim>\<open>ValueError\<close> outside its domain.
\<close>

record float_ops =
  fadd :: "pyfloat \<Rightarrow> pyfloat \<Rightarrow> pyfloat"
  fsub :: "pyfloat \<Rightarrow> pyfloat \<Rightarrow> pyfloat"
  fmul :: "pyfloat \<Rightarrow> pyfloat \<Rightarrow> pyfloat"
  fdiv :: "pyfloat \<Rightarrow> pyfloat \<Rightarrow> pyfloat"
  flog10 :: "pyfloat \<Rightarrow> error + pyfloat"

section \<open>satlen.py: the signal processor and the handshake\<close>

definition BASE_FREQ_GHZ :: pyfloat where
  "BASE_FREQ_GHZ = 0x4028E66666666666" \<comment> \<open>12.450\<close>

definition LIGHT_SPEED :: pyfloat where
  "LIGHT_SPEED = 0x41124C41D4FDF3B6" \<comment> \<open>299792.458\<close>

text \<open>
  \<^verbatim>\<open>calculate_path_loss\<close> returns the integer 0 for a distance of zero; the caller divides
  it by 2 and subtracts it from 100, which gives the same doubles as for 0.0, the value
  returned here. The literals 20, 92.45, 100 and 2 appear as their binary64 patterns.
\<close>

definition calculate_path_loss :: "float_ops \<Rightarrow> pyfloat \<Rightarrow> pyfloat \<Rightarrow> error + pyfloat" where
  "calculate_path_loss fo distance frequency_ghz =
     (if float_eq_zero distance then Inr 0
      else (case flog10 fo distance of Inl e \<Rightarrow> Inl e
            | Inr ld \<Rightarrow> (case flog10 fo frequency_ghz of Inl e \<Rightarrow> Inl e
                | Inr lf \<Rightarrow>
                    Inr (fadd fo (fadd fo (fmul fo 0x4034000000000000 ld)
                                          (fmul fo 0x4034000000000000 lf))
                                 0x40571CCCCCCCCCCD))))"

datatype status = ACTIVE | DEGRADED

record telemetry =
  node_name :: string
  node_id :: int
  coords :: "pyfloat \<times> pyfloat"
  altitude :: pyfloat
  range_km :: pyfloat
  doppler :: pyfloat
  snr :: pyfloat
  status :: status
  binary_blob :: "byte list"

definition perform_handshake ::
  "float_ops \<Rightarrow> ephemeris \<Rightarrow> tracked_object \<Rightarrow> pyfloat \<Rightarrow> pyfloat \<Rightarrow> error + telemetry" where
  "perform_handshake fo eph sat now clock =
     (case eph sat now of Inl e \<Rightarrow> Inl e
      | Inr subpoint \<Rightarrow>
         (let rng = distance_km subpoint;
              alt_km = elevation_km subpoint;
              range_rate = speed_km_per_s subpoint;
              doppler_shift = fmul fo (fdiv fo range_rate LIGHT_SPEED) BASE_FREQ_GHZ
          in (case calculate_path_loss fo rng BASE_FREQ_GHZ of Inl e \<Rightarrow> Inl e
              | Inr path_loss \<Rightarrow>
                 (let s = fsub fo 0x4059000000000000 (fdiv fo path_loss 0x4000000000000000)
                  in (case encode_binary_packet (satnum sat) (latitude_degrees subpoint)
                             (longitude_degrees subpoint) alt_km doppler_shift clock of
                        Inl e \<Rightarrow> Inl e
                      | Inr blob \<Rightarrow>
                          Inr \<lparr>node_name = sat_name sat, node_id = satnum sat,
                               coords = (latitude_degrees subpoint, longitude_degrees subpoint),
                               altitude = alt_km, range_km = rng, doppler = doppler_shift,
                               snr = s,
                               status = (if int_less_float 15 s then ACTIVE else DEGRADED),
                               binary_blob = blob\<rparr>)))))"

section \<open>satyo.py: the ghost trace and the quantum metrics\<close>

definition GHOST_TRACE_BUFFER :: nat where
  "GHOST_TRACE_BUFFER = 50"

type_synonym ghost_vault = "string \<rightharpoonup> (pyfloat \<times> pyfloat) list"

record kernel_state =
  ghost_enabled :: bool
  ghost_vault :: ghost_vault

text \<open>The body of \<^verbatim>\<open>if self.ghost_enabled:\<close> in \<^verbatim>\<open>calculate_quantum_metrics\<close>.\<close>

definition ghost_trace_append :: "ghost_vault \<Rightarrow> string \<Rightarrow> pyfloat \<times> pyfloat \<Rightarrow> ghost_vault" where
  "ghost_trace_append vault name pt =
     (let xs = (case vault name of None \<Rightarrow> [] | Some ys \<Rightarrow> ys);
          zs = xs @ [pt]
      in vault(name \<mapsto> (if GHOST_TRACE_BUFFER < length zs then tl zs else zs)))"

record packet =
  node :: string
  ident :: int
  lat :: pyfloat
  lon :: pyfloat
  alt :: pyfloat
  binary_payload :: string
  ghost_points :: nat

definition calculate_quantum_metrics ::
  "ephemeris \<Rightarrow> kernel_state \<Rightarrow> tracked_object \<Rightarrow> pyfloat \<Rightarrow> pyfloat
     \<Rightarrow> error + packet \<times> kernel_state" where
  "calculate_quantum_metrics eph k sat now clock =
     (case eph sat now of Inl e \<Rightarrow> Inl e
      | Inr subpoint \<Rightarrow>
         (case struct_pack_Iffffd (satnum sat) (latitude_degrees subpoint)
                 (longitude_degrees subpoint) (elevation_km subpoint) 0 clock of
            Inl e \<Rightarrow> Inl e
          | Inr binary_packet \<Rightarrow>
             (let vault = (if ghost_enabled k
                           then ghost_trace_append (ghost_vault k) (sat_name sat)
                                  (latitude_degrees subpoint, longitude_degrees subpoint)
                           else ghost_vault k)
              in Inr (\<lparr>node = sat_name sat, ident = satnum sat,
                        lat = latitude_degrees subpoint, lon = longitude_degrees subpoint,
                        alt = elevation_km subpoint, binary_payload = hex binary_packet,
                        ghost_points =
                          length (case vault (sat_name sat) of None \<Rightarrow> [] | Some ys \<Rightarrow> ys)\<rparr>,
                      k\<lparr>ghost_vault := vault\<rparr>))))"

section \<open>The telemetry bus\<close>

text \<open>
  \<^verbatim>\<open>queue.Queue(maxsize)\<close>: a FIFO list. As in Python, \<open>maxsize = 0\<close> means no bound.
  \<open>put\<close> returns \<open>None\<close> when the caller has to wait for a free slot; \<open>get_timeout\<close>
  returns \<open>None\<close> when \<^verbatim>\<open>get(timeout=1)\<close> raises \<^verbatim>\<open>Empty\<close>.
\<close>

definition full :: "nat \<Rightarrow> 'a list \<Rightarrow> bool" where
  "full maxsize q = (0 < maxsize \<and> maxsize \<le> length q)"

definition put :: "nat \<Rightarrow> 'a \<Rightarrow> 'a list \<Rightarrow> 'a list option" where
  "put maxsize x q = (if full maxsize q then None else Some (q @ [x]))"

definition get_timeout :: "'a list \<Rightarrow> ('a \<times> 'a list) option" where
  "get_timeout q = (case q of [] \<Rightarrow> None | x # r \<Rightarrow> Some (x, r))"

section \<open>The two threads\<close>

text \<open>
  Both scripts run the same two loops over shared state: a harvester
  (\<^verbatim>\<open>tracking_loop\<close>, \<^verbatim>\<open>harvester_thread\<close>) and a consumer (\<^verbatim>\<open>storage_subsystem\<close>,
  \<^verbatim>\<open>storage_kernel\<close>). They differ in the bound of the queue, in the function that samples
  an object and in what is written; \<open>pipeline\<close> collects these. A run is a schedule: a list
  of turns, each letting one thread advance to its next shared-state access, or delivering
  the operator's interrupt, which sets the event. A turn carries the reading of the system
  clock the thread sees.
\<close>

record ('d, 'k, 'f) pipeline =
  maxsize :: nat
  acquire :: "'k \<Rightarrow> tracked_object \<Rightarrow> pyfloat \<Rightarrow> pyfloat \<Rightarrow> error + 'd \<times> 'k"
  open_files :: "'f \<Rightarrow> 'f"
  persist :: "pyfloat \<Rightarrow> 'd \<Rightarrow> 'f \<Rightarrow> error + 'f"

datatype thread = Running | Returned | Raised error

datatype 'd position =
    AtWhile
  | InFor pyfloat "tracked_object list"
  | AtPut pyfloat "tracked_object list" 'd

record ('d, 'k, 'f) system =
  bus :: "'d list"
  event :: bool
  swarm :: "tracked_object list"
  kernel :: 'k
  harvester :: thread
  pos :: "'d position"
  consumer :: thread
  started :: bool
  files :: 'f

datatype turn = Harvester pyfloat | Consumer pyfloat | Interrupt

text \<open>
  The harvester: \<^verbatim>\<open>while not event.is_set(): now = ts.now(); for sat in swarm: data =
  sample(sat, now); queue.put(data); time.sleep(..)\<close>. There is no exception handler in the
  loop: an exception of the sampling function ends the thread.
\<close>

definition harvester_step ::
  "('d, 'k, 'f) pipeline \<Rightarrow> pyfloat \<Rightarrow> ('d, 'k, 'f) system \<Rightarrow> ('d, 'k, 'f) system" where
  "harvester_step P t s =
     (if harvester s \<noteq> Running then s
      else (case pos s of
          AtWhile \<Rightarrow> (if event s then s\<lparr>harvester := Returned\<rparr> else s\<lparr>pos := InFor t (swarm s)\<rparr>)
        | InFor now sats \<Rightarrow>
            (case sats of
               [] \<Rightarrow> s\<lparr>pos := AtWhile\<rparr>
             | sat # rest \<Rightarrow>
                 (case acquire P (kernel s) sat now t of
                    Inl e \<Rightarrow> s\<lparr>harvester := Raised e\<rparr>
                  | Inr dk \<Rightarrow> s\<lparr>kernel := snd dk, pos := AtPut now rest (fst dk)\<rparr>))
        | AtPut now rest d \<Rightarrow>
            (case put (maxsize P) d (bus s) of
               None \<Rightarrow> s
             | Some q \<Rightarrow> s\<lparr>bus := q, pos := InFor now rest\<rparr>)))"

text \<open>
  The consumer: it writes the header of its file, then \<^verbatim>\<open>while not event.is_set(): try: data
  = queue.get(timeout=1); (write data) except Empty: continue\<close>.
\<close>

definition consumer_step ::
  "('d, 'k, 'f) pipeline \<Rightarrow> pyfloat \<Rightarrow> ('d, 'k, 'f) system \<Rightarrow> ('d, 'k, 'f) system" where
  "consumer_step P t s =
     (if consumer s \<noteq> Running then s
      else if \<not> started s then s\<lparr>files := open_files P (files s), started := True\<rparr>
      else if event s then s\<lparr>consumer := Returned\<rparr>
      else (case get_timeout (bus s) of
          None \<Rightarrow> s
        | Some dq \<Rightarrow>
            (case persist P t (fst dq) (files s) of
               Inl e \<Rightarrow> s\<lparr>bus := snd dq, consumer := Raised e\<rparr>
             | Inr f \<Rightarrow> s\<lparr>bus := snd dq, files := f\<rparr>)))"

definition step ::
  "('d, 'k, 'f) pipeline \<Rightarrow> turn \<Rightarrow> ('d, 'k, 'f) system \<Rightarrow> ('d, 'k, 'f) system" where
  "step P u s =
     (case u of
        Harvester t \<Rightarrow> harvester_step P t s
      | Consumer t \<Rightarrow> consumer_step P t s
      | Interrupt \<Rightarrow> s\<lparr>event := True\<rparr>)"

fun run ::
  "('d, 'k, 'f) pipeline \<Rightarrow> turn list \<Rightarrow> ('d, 'k, 'f) system \<Rightarrow> ('d, 'k, 'f) system" where
  "run P [] s = s"
| "run P (u # us) s = run P us (step P u s)"

definition launch :: "tracked_object list \<Rightarrow> 'k \<Rightarrow> 'f \<Rightarrow> ('d, 'k, 'f) system" where
  "launch sats k f =
     \<lparr>bus = [], event = False, swarm = sats, kernel = k, harvester = Running, pos = AtWhile,
      consumer = Running, started = False, files = f\<rparr>"

section \<open>satlen.py: storage and start-up\<close>

datatype 'd chunk = Text string | Dump 'd

record audit_line =
  line_time :: pyfloat
  line_node :: int
  line_snr :: pyfloat

record satlen_files =
  BINARY_LOG :: "byte list"
  JSON_STREAM :: "telemetry chunk list"
  RECOVERY_LOG :: "audit_line list"

text \<open>
  The body of the \<^verbatim>\<open>try\<close> in \<^verbatim>\<open>storage_subsystem\<close>. A line of the audit log is kept as the
  values the source formats into it: the time, the node id and the SNR.
\<close>

definition storage_write :: "pyfloat \<Rightarrow> telemetry \<Rightarrow> satlen_files \<Rightarrow> satlen_files" where
  "storage_write stamp data f =
     (let f1 = f\<lparr>BINARY_LOG := BINARY_LOG f @ binary_blob data\<rparr>;
          f2 = f1\<lparr>JSON_STREAM := JSON_STREAM f1 @ [Dump data, Text '',\<newline>'']\<rparr>
      in if float_less_int (snr data) 20
         then f2\<lparr>RECOVERY_LOG := RECOVERY_LOG f2 @
                  [\<lparr>line_time = stamp, line_node = node_id data, line_snr = snr data\<rparr>]\<rparr>
         else f2)"

definition satlen :: "float_ops \<Rightarrow> ephemeris \<Rightarrow> (telemetry, unit, satlen_files) pipeline" where
  "satlen fo eph =
     \<lparr>maxsize = 1000,
      acquire = (\<lambda>k sat now clock.
         case perform_handshake fo eph sat now clock of Inl e \<Rightarrow> Inl e | Inr d \<Rightarrow> Inr (d, k)),
      open_files = (\<lambda>f. f\<lparr>JSON_STREAM := [Text ''[\<newline>'']\<rparr>),
      persist = (\<lambda>stamp data f. Inr (storage_write stamp data f))\<rparr>"

text \<open>
  Start-up. \<open>catalog\<close> is what \<^verbatim>\<open>load.tle_file\<close> returns or raises. \<^verbatim>\<open>exit()\<close> and
  \<^verbatim>\<open>sys.exit(1)\<close> raise \<^verbatim>\<open>SystemExit\<close>, whose argument decides the exit status of the process.
\<close>

datatype system_exit = SystemExit "int option"

fun exit_status :: "system_exit \<Rightarrow> int" where
  "exit_status (SystemExit None) = 0"
| "exit_status (SystemExit (Some n)) = n"

definition SatelliteKernel_init ::
  "error + tracked_object list \<Rightarrow> system_exit + tracked_object list" where
  "SatelliteKernel_init catalog =
     (case catalog of Inl e \<Rightarrow> Inl (SystemExit None) | Inr sats \<Rightarrow> Inr (take 100 sats))"

definition satlen_main ::
  "error + tracked_object list \<Rightarrow> int + (telemetry, unit, satlen_files) system" where
  "satlen_main catalog =
     (case SatelliteKernel_init catalog of
        Inl x \<Rightarrow> Inl (exit_status x)
      | Inr sw \<Rightarrow> Inr (launch sw () \<lparr>BINARY_LOG = [], JSON_STREAM = [], RECOVERY_LOG = []\<rparr>))"

section \<open>satyo.py: storage and start-up\<close>

record satyo_files =
  BINARY_CORE_FILE :: "byte list"
  DATA_MATRIX_FILE :: "packet chunk list"

definition ascii :: "string \<Rightarrow> byte list" where
  "ascii cs = map (\<lambda>c. of_nat (of_char c)) cs"

definition storage_kernel_write :: "packet \<Rightarrow> satyo_files \<Rightarrow> error + satyo_files" where
  "storage_kernel_write p f =
     (case fromhex (binary_payload p) of
        Inl e \<Rightarrow> Inl e
      | Inr bs \<Rightarrow>
          Inr (f\<lparr>BINARY_CORE_FILE := BINARY_CORE_FILE f @ bs,
                 DATA_MATRIX_FILE := DATA_MATRIX_FILE f @ [Dump p, Text ''\<newline>'']\<rparr>))"

definition satyo :: "ephemeris \<Rightarrow> (packet, kernel_state, satyo_files) pipeline" where
  "satyo eph =
     \<lparr>maxsize = 0,
      acquire = calculate_quantum_metrics eph,
      open_files = (\<lambda>f. f\<lparr>BINARY_CORE_FILE := ascii ''NEXUS-INTEL-V2-START''\<rparr>),
      persist = (\<lambda>stamp p f. storage_kernel_write p f)\<rparr>"

definition boot_sequence ::
  "error + tracked_object list \<Rightarrow> system_exit + tracked_object list" where
  "boot_sequence catalog =
     (case catalog of Inl e \<Rightarrow> Inl (SystemExit (Some 1)) | Inr sats \<Rightarrow> Inr (take 100 sats))"

definition satyo_main ::
  "bool \<Rightarrow> error + tracked_object list \<Rightarrow> int + (packet, kernel_state, satyo_files) system" where
  "satyo_main ghost_trace catalog =
     (case boot_sequence catalog of
        Inl x \<Rightarrow> Inl (exit_status x)
      | Inr sw \<Rightarrow>
          Inr (launch sw \<lparr>ghost_enabled = ghost_trace, ghost_vault = Map.empty\<rparr>
                 \<lparr>BINARY_CORE_FILE = [], DATA_MATRIX_FILE = []\<rparr>))"

section \<open>Invariants and the scenario of the concrete runs\<close>


text \<open>
  The end-to-end scenario of the specification: one object, id 25544, and an ephemeris
  that returns latitude 12.42, longitude 144.12, altitude 410.0, range 800.0 km and
  range rate 4.5 km/s at every time. \<open>flaky_ephemeris\<close> raises for the objects of one name.
\<close>

definition iss :: tracked_object where
  "iss = \<lparr>sat_name = ''ISS (ZARYA)'', satnum = 25544, elements = []\<rparr>"

definition mock_ephemeris :: ephemeris where
  "mock_ephemeris sat now =
     Inr \<lparr>latitude_degrees = 0x4028D70A3D70A3D7, longitude_degrees = 0x406203D70A3D70A4,
          elevation_km = 0x4079A00000000000, distance_km = 0x4089000000000000,
          speed_km_per_s = 0x4012000000000000\<rparr>"


text \<open>A telemetry record of satlen.py for that object, with a given SNR.\<close>

definition iss_telemetry :: "pyfloat \<Rightarrow> telemetry" where
  "iss_telemetry x =
     \<lparr>node_name = ''ISS (ZARYA)'', node_id = 25544,
      coords = (0x4028D70A3D70A3D7, 0x406203D70A3D70A4),
      altitude = 0x4079A00000000000, range_km = 0x4089000000000000,
      doppler = 0x3F287EA0D43BA9F6, snr = x,
      status = (if int_less_float 15 x then ACTIVE else DEGRADED),
      binary_blob = [0, 0, 99, 200, 65, 70, 184, 82, 67, 16, 30, 184, 67, 205, 0, 0,
                     57, 67, 245, 7, 65, 217, 84, 252, 64, 32, 0, 0]\<rparr>"

text \<open>The packet of satyo.py for that object when the ghost trace is off.\<close>

definition iss_packet :: packet where
  "iss_packet =
     \<lparr>node = ''ISS (ZARYA)'', ident = 25544, lat = 0x4028D70A3D70A3D7,
      lon = 0x406203D70A3D70A4, alt = 0x4079A00000000000,
      binary_payload = ''000063c84146b85243101eb843cd00000000000041d954fc40200000'',
      ghost_points = 0\<rparr>"

definition debris :: tracked_object where
  "debris = \<lparr>sat_name = ''DEBRIS'', satnum = 99999, elements = []\<rparr>"


text \<open>
  The host arithmetic on the operands of the scenario, as CPython computes it: 4.5 /
  299792.458, times 12.45; the two logarithms, their multiples by 20, the sums, the half
  and the difference from 100. Other operands do not occur in the runs below.
\<close>

definition scenario_float_ops :: float_ops where
  "scenario_float_ops =
     \<lparr>fadd = (\<lambda>x y.
         if x = 0x404D07E90DCAC130 \<and> y = 0x4035E7445F4F9E4E then 0x4053FDC59EB9482C
         else if x = 0x4053FDC59EB9482C \<and> y = 0x40571CCCCCCCCCCD then 0x40658D4935C30A7C
         else 0x7FF8000000000000),
      fsub = (\<lambda>x y.
         if x = 0x4059000000000000 \<and> y = 0x40558D4935C30A7C then 0x402B95B651E7AC20
         else 0x7FF8000000000000),
      fmul = (\<lambda>x y.
         if x = 0x3EEF7AA381D778C1 \<and> y = 0x4028E66666666666 then 0x3F287EA0D43BA9F6
         else if x = 0x4034000000000000 \<and> y = 0x400739873E3BCDC0 then 0x404D07E90DCAC130
         else if x = 0x4034000000000000 \<and> y = 0x3FF185D04C3FB1D8 then 0x4035E7445F4F9E4E
         else 0x7FF8000000000000),
      fdiv = (\<lambda>x y.
         if x = 0x4012000000000000 \<and> y = 0x41124C41D4FDF3B6 then 0x3EEF7AA381D778C1
         else if x = 0x40658D4935C30A7C \<and> y = 0x4000000000000000 then 0x40558D4935C30A7C
         else 0x7FF8000000000000),
      flog10 = (\<lambda>x.
         if x = 0x4089000000000000 then Inr 0x400739873E3BCDC0
         else if x = 0x4028E66666666666 then Inr 0x3FF185D04C3FB1D8
         else Inl ValueError)\<rparr>"

text \<open>
  What is in flight: the objects left in the current cycle, the sample waiting for a slot
  of the bus, and the records dumped to a structured log.
\<close>

definition cycle_rest :: "'d position \<Rightarrow> tracked_object list" where
  "cycle_rest p = (case p of AtWhile \<Rightarrow> [] | InFor now r \<Rightarrow> r | AtPut now r d \<Rightarrow> r)"

definition in_flight :: "'d position \<Rightarrow> 'd list" where
  "in_flight p = (case p of AtWhile \<Rightarrow> [] | InFor now r \<Rightarrow> [] | AtPut now r d \<Rightarrow> [d])"

fun dumped :: "'d chunk list \<Rightarrow> 'd list" where
  "dumped [] = []"
| "dumped (Text x # cs) = dumped cs"
| "dumped (Dump d # cs) = d # dumped cs"

text \<open>\<open>tracks R sw s\<close>: everything in flight in state \<open>s\<close> belongs to an object of \<open>sw\<close>.\<close>

definition tracks ::
  "('d \<Rightarrow> tracked_object \<Rightarrow> bool) \<Rightarrow> tracked_object list \<Rightarrow> ('d, 'k, 'f) system \<Rightarrow> bool" where
  "tracks R sw s =
     (swarm s = sw \<and> set (cycle_rest (pos s)) \<subseteq> set sw \<and>
      (\<forall>d \<in> set (bus s) \<union> set (in_flight (pos s)). \<exists>sat \<in> set sw. R d sat))"

text \<open>
  What a sample says about the object it was taken from: its name, its number, and the
  number packed in the first four bytes of its 28-byte packet. \<open>payload_bytes\<close> is the
  packet of a sample of satyo.py, decoded from its hexadecimal text as \<^verbatim>\<open>storage_kernel\<close>
  does before it writes it.
\<close>

definition payload_bytes :: "packet \<Rightarrow> byte list" where
  "payload_bytes p = (case fromhex (binary_payload p) of Inl e \<Rightarrow> [] | Inr bs \<Rightarrow> bs)"

definition telemetry_from :: "telemetry \<Rightarrow> tracked_object \<Rightarrow> bool" where
  "telemetry_from d sat =
     (node_name d = sat_name sat \<and> node_id d = satnum sat \<and> length (binary_blob d) = 28 \<and>
      unpack_be (take 4 (binary_blob d)) = nat (satnum sat))"

definition packet_from :: "packet \<Rightarrow> tracked_object \<Rightarrow> bool" where
  "packet_from p sat =
     (node p = sat_name sat \<and> ident p = satnum sat \<and>
      fromhex (binary_payload p) = Inr (payload_bytes p) \<and> length (payload_bytes p) = 28 \<and>
      unpack_be (take 4 (payload_bytes p)) = nat (satnum sat))"

text \<open>
  What the files hold: the binary file is the concatenation of the packets of the dumped
  samples (after its header in satyo.py), every dumped sample is a sample of an object of
  \<open>sw\<close>, and every line of the audit log names the number of an object of \<open>sw\<close>.
\<close>

definition satlen_outputs ::
  "tracked_object list \<Rightarrow> (telemetry, unit, satlen_files) system \<Rightarrow> bool" where
  "satlen_outputs sw s =
     ((\<not> started s \<longrightarrow> BINARY_LOG (files s) = [] \<and> JSON_STREAM (files s) = []) \<and>
      BINARY_LOG (files s) = concat (map binary_blob (dumped (JSON_STREAM (files s)))) \<and>
      (\<forall>d \<in> set (dumped (JSON_STREAM (files s))). \<exists>sat \<in> set sw. telemetry_from d sat) \<and>
      (\<forall>l \<in> set (RECOVERY_LOG (files s)). \<exists>sat \<in> set sw. line_node l = satnum sat))"

definition satyo_outputs ::
  "tracked_object list \<Rightarrow> (packet, kernel_state, satyo_files) system \<Rightarrow> bool" where
  "satyo_outputs sw s =
     ((\<not> started s \<longrightarrow> DATA_MATRIX_FILE (files s) = []) \<and>
      BINARY_CORE_FILE (files s) =
        (if started s then ascii ''NEXUS-INTEL-V2-START'' else []) @
        concat (map payload_bytes (dumped (DATA_MATRIX_FILE (files s)))) \<and>
      (\<forall>p \<in> set (dumped (DATA_MATRIX_FILE (files s))). \<exists>sat \<in> set sw. packet_from p sat))"

text \<open>
  A schedule in which the consumer opens its files, the harvester samples the first
  object and queues the sample, the consumer stores it, and the harvester queues the
  sample of the second object.
\<close>

definition scenario_schedule :: "turn list" where
  "scenario_schedule =
     [Consumer 0x41D954FC40200000, Harvester 0x41D954FC40200000, Harvester 0x41D954FC40200000,
      Harvester 0x41D954FC40200000, Consumer 0x41D954FC40200000,
      Harvester 0x41D954FC40200000, Harvester 0x41D954FC40200000]"

section \<open>Evaluation of the codec on numerals\<close>

lemma pack_be_4:
  "pack_be 4 n = [of_nat (n div 16777216), of_nat (n div 65536), of_nat (n div 256), of_nat n]"
proof -
  have e: "(4::nat) = Suc (Suc (Suc (Suc 0)))" by simp
  show ?thesis unfolding e by simp
qed

lemma pack_be_8:
  "pack_be 8 n = [of_nat (n div 72057594037927936), of_nat (n div 281474976710656),
     of_nat (n div 1099511627776), of_nat (n div 4294967296),
     of_nat (n div 16777216), of_nat (n div 65536), of_nat (n div 256), of_nat n]"
proof -
  have e: "(8::nat) = Suc (Suc (Suc (Suc (Suc (Suc (Suc (Suc 0)))))))" by simp
  show ?thesis unfolding e by simp
qed

lemmas float_defs = narrow_def narrow_mag_def rne_shift_def exp64_def man64_def sign64_def
  exp32_def man32_def is_inf32_def is_inf64_def

lemma mock_packet:
  "struct_pack_Iffffd 25544 0x4028D70A3D70A3D7 0x406203D70A3D70A4 0x4079A00000000000 0
     0x41D954FC40200000 =
   Inr [0, 0, 99, 200, 65, 70, 184, 82, 67, 16, 30, 184, 67, 205, 0, 0, 0, 0, 0, 0,
        65, 217, 84, 252, 64, 32, 0, 0]"
  by (simp add: struct_pack_Iffffd_def pack_then_def pack_I_def pack_f_def pack_d_def
      float_defs pack_be_4 pack_be_8)

lemma mock_metrics:
  "calculate_quantum_metrics mock_ephemeris k iss now 0x41D954FC40200000 =
   Inr (\<lparr>node = ''ISS (ZARYA)'', ident = 25544, lat = 0x4028D70A3D70A3D7,
          lon = 0x406203D70A3D70A4, alt = 0x4079A00000000000,
          binary_payload = ''000063c84146b85243101eb843cd00000000000041d954fc40200000'',
          ghost_points = length (case (if ghost_enabled k
             then ghost_trace_append (ghost_vault k) ''ISS (ZARYA)''
                    (0x4028D70A3D70A3D7, 0x406203D70A3D70A4)
             else ghost_vault k) ''ISS (ZARYA)'' of None \<Rightarrow> [] | Some ys \<Rightarrow> ys)\<rparr>,
        k\<lparr>ghost_vault := (if ghost_enabled k
             then ghost_trace_append (ghost_vault k) ''ISS (ZARYA)''
                    (0x4028D70A3D70A3D7, 0x406203D70A3D70A4)
             else ghost_vault k)\<rparr>)"
  by (simp add: calculate_quantum_metrics_def mock_ephemeris_def iss_def mock_packet
      hex_def hex_digit_def Let_def)

lemmas value_defs = float_less_int_def is_nan64_def is_inf64_def is_finite64_def valof64_def
  mag64_def exp64_def man64_def sign64_def

lemma snr_18_5: "float_less_int 0x4032800000000000 20 \<and> is_finite64 0x4032800000000000"
  by (simp add: value_defs)

lemma snr_25: "\<not> float_less_int 0x4039000000000000 20 \<and> is_finite64 0x4039000000000000"
  by (simp add: value_defs)

lemma scenario_packet:
  "encode_binary_packet 25544 0x4028D70A3D70A3D7 0x406203D70A3D70A4 0x4079A00000000000
     0x3F287EA0D43BA9F6 0x41D954FC40200000 =
   Inr [0, 0, 99, 200, 65, 70, 184, 82, 67, 16, 30, 184, 67, 205, 0, 0, 57, 67, 245, 7,
        65, 217, 84, 252, 64, 32, 0, 0]"
  by (simp add: encode_binary_packet_def struct_pack_Iffffd_def pack_then_def pack_I_def
      pack_f_def pack_d_def float_defs pack_be_4 pack_be_8)

lemma scenario_path_loss:
  "calculate_path_loss scenario_float_ops 0x4089000000000000 BASE_FREQ_GHZ =
   Inr 0x40658D4935C30A7C"
  by (simp add: calculate_path_loss_def scenario_float_ops_def float_eq_zero_def
      BASE_FREQ_GHZ_def)

lemma scenario_snr: "int_less_float 15 0x402B95B651E7AC20 = False"
  by (simp add: int_less_float_def value_defs)

lemma scenario_doppler:
  "fmul scenario_float_ops (fdiv scenario_float_ops 0x4012000000000000 LIGHT_SPEED)
     BASE_FREQ_GHZ = 0x3F287EA0D43BA9F6"
  by (simp add: scenario_float_ops_def LIGHT_SPEED_def BASE_FREQ_GHZ_def)

lemma scenario_snr_value:
  "fsub scenario_float_ops 0x4059000000000000
     (fdiv scenario_float_ops 0x40658D4935C30A7C 0x4000000000000000) = 0x402B95B651E7AC20"
  by (simp add: scenario_float_ops_def)

lemma scenario_handshake:
  "perform_handshake scenario_float_ops mock_ephemeris iss now 0x41D954FC40200000 =
   Inr (iss_telemetry 0x402B95B651E7AC20)"
  by (simp add: perform_handshake_def mock_ephemeris_def scenario_path_loss Let_def
      scenario_doppler scenario_snr_value iss_def scenario_packet
      iss_telemetry_def scenario_snr)

lemma scenario_finite:
  "is_finite64 0x4028D70A3D70A3D7 \<and> \<bar>valof64 0x4028D70A3D70A3D7\<bar> < 2 ^ 127 \<and>
   is_finite64 0x406203D70A3D70A4 \<and> \<bar>valof64 0x406203D70A3D70A4\<bar> < 2 ^ 127 \<and>
   is_finite64 0x4079A00000000000 \<and> \<bar>valof64 0x4079A00000000000\<bar> < 2 ^ 127 \<and>
   is_finite64 0x3F287EA0D43BA9F6 \<and> \<bar>valof64 0x3F287EA0D43BA9F6\<bar> < 2 ^ 127"
  by (simp add: value_defs)




lemma replicate_100: "replicate 100 x = x # replicate 99 x"
  by (simp add: replicate_Suc [symmetric] del: replicate_Suc)

section \<open>Start-up\<close>

lemma satyo_main_launch:
  "satyo_main g (Inr sats) = Inr s0 \<Longrightarrow>
   s0 = launch (take 100 sats) \<lparr>ghost_enabled = g, ghost_vault = Map.empty\<rparr>
          \<lparr>BINARY_CORE_FILE = [], DATA_MATRIX_FILE = []\<rparr>"
  by (auto simp: satyo_main_def boot_sequence_def)

lemma satlen_main_launch:
  "satlen_main (Inr sats) = Inr s0 \<Longrightarrow>
   s0 = launch (take 100 sats) () \<lparr>BINARY_LOG = [], JSON_STREAM = [], RECOVERY_LOG = []\<rparr>"
  by (auto simp: satlen_main_def SatelliteKernel_init_def)


text \<open>
  C9. When the catalog load raises, neither script reaches its threads: the process ends
  in the constructor or in the boot sequence. satyo.py ends with exit status 1; satlen.py
  calls \<^verbatim>\<open>exit()\<close> without an argument and ends with exit status 0.
\<close>

theorem catalog_failure_exit_status:
  "satlen_main (Inl e) = Inl 0 \<and> satyo_main g (Inl e) = Inl 1"
  by (simp add: satlen_main_def satyo_main_def SatelliteKernel_init_def boot_sequence_def)

section \<open>The ghost trace\<close>









section \<open>The binary codec\<close>

subsection \<open>Big-endian bytes\<close>

lemma length_pack_be: "length (pack_be k n) = k"
  by (induction k) simp_all

lemma foldl_pack_be:
  "foldl (\<lambda>a b. a * 256 + unat b) a (pack_be k n) = a * 256 ^ k + n mod 256 ^ k"
proof (induction k arbitrary: a)
  case 0
  then show ?case by simp
next
  case (Suc k)
  have b: "unat (of_nat (n div 256 ^ k) :: byte) = (n div 256 ^ k) mod 256"
    by (simp add: unat_of_nat)
  have "n mod (256 ^ k * 256) = 256 ^ k * (n div 256 ^ k mod 256) + n mod 256 ^ k"
    by (rule mod_mult2_eq)
  then have m: "n mod 256 ^ Suc k = 256 ^ k * (n div 256 ^ k mod 256) + n mod 256 ^ k"
    by (simp add: mult.commute)
  have "foldl (\<lambda>a b. a * 256 + unat b) a (pack_be (Suc k) n) =
        (a * 256 + n div 256 ^ k mod 256) * 256 ^ k + n mod 256 ^ k"
    by (simp only: pack_be.simps foldl_Cons Suc.IH b)
  also have "\<dots> = a * 256 ^ Suc k + n mod 256 ^ Suc k"
    unfolding m by (simp add: algebra_simps)
  finally show ?case .
qed

lemma unpack_pack_be: "unpack_be (pack_be k n) = n mod 256 ^ k"
  by (simp add: unpack_be_def foldl_pack_be)

lemma unpack_pack_be_32: "unpack_be (pack_be 4 (unat (w :: 32 word))) = unat w"
proof -
  have "unat w < 2 ^ LENGTH(32)" by (rule unsigned_less)
  then have "unat w < 2 ^ 32" by simp
  then show ?thesis by (simp add: unpack_pack_be)
qed

lemma unpack_pack_be_64: "unpack_be (pack_be 8 (unat (w :: 64 word))) = unat w"
proof -
  have "unat w < 2 ^ LENGTH(64)" by (rule unsigned_less)
  then have "unat w < 2 ^ 64" by simp
  then show ?thesis by (simp add: unpack_pack_be)
qed

lemma unpack_pack_be_nat: "n < 2 ^ 32 \<Longrightarrow> unpack_be (pack_be 4 n) = n"
  by (simp add: unpack_pack_be)

subsection \<open>The shape of a packet\<close>

lemma pack_f_Inr:
  "pack_f x = Inr bs \<Longrightarrow>
   bs = pack_be 4 (unat (narrow x)) \<and> (is_inf32 (narrow x) \<longrightarrow> is_inf64 x)"
  by (auto simp: pack_f_def Let_def split: if_splits)

lemma pack_I_Inr: "pack_I i = Inr bs \<Longrightarrow> 0 \<le> i \<and> i < 2 ^ 32 \<and> bs = pack_be 4 (nat i)"
  by (auto simp: pack_I_def split: if_splits)

lemma pack_then_Inr:
  "pack_then a b = Inr bs \<Longrightarrow> \<exists>x y. a = Inr x \<and> b = Inr y \<and> bs = x @ y"
  by (auto simp: pack_then_def split: sum.splits)

lemma struct_pack_Inr:
  assumes "struct_pack_Iffffd i a b c d t = Inr bs"
  shows "0 \<le> i \<and> i < 2 ^ 32 \<and>
         bs = pack_be 4 (nat i) @ pack_be 4 (unat (narrow a)) @ pack_be 4 (unat (narrow b)) @
              pack_be 4 (unat (narrow c)) @ pack_be 4 (unat (narrow d)) @ pack_be 8 (unat t) \<and>
         (is_inf32 (narrow a) \<longrightarrow> is_inf64 a) \<and> (is_inf32 (narrow b) \<longrightarrow> is_inf64 b) \<and>
         (is_inf32 (narrow c) \<longrightarrow> is_inf64 c) \<and> (is_inf32 (narrow d) \<longrightarrow> is_inf64 d)"
proof -
  from assms obtain bi r1 where i: "pack_I i = Inr bi"
    and 1: "pack_then (pack_f a) (pack_then (pack_f b) (pack_then (pack_f c)
              (pack_then (pack_f d) (Inr (pack_d t))))) = Inr r1" and s1: "bs = bi @ r1"
    unfolding struct_pack_Iffffd_def by (blast dest: pack_then_Inr)
  from 1 obtain ba r2 where a: "pack_f a = Inr ba"
    and 2: "pack_then (pack_f b) (pack_then (pack_f c)
              (pack_then (pack_f d) (Inr (pack_d t)))) = Inr r2" and s2: "r1 = ba @ r2"
    by (blast dest: pack_then_Inr)
  from 2 obtain bb r3 where b: "pack_f b = Inr bb"
    and 3: "pack_then (pack_f c) (pack_then (pack_f d) (Inr (pack_d t))) = Inr r3"
    and s3: "r2 = bb @ r3"
    by (blast dest: pack_then_Inr)
  from 3 obtain bc r4 where c: "pack_f c = Inr bc"
    and 4: "pack_then (pack_f d) (Inr (pack_d t)) = Inr r4" and s4: "r3 = bc @ r4"
    by (blast dest: pack_then_Inr)
  from 4 obtain bd where d: "pack_f d = Inr bd" and s5: "r4 = bd @ pack_d t"
    by (auto dest: pack_then_Inr)
  show ?thesis
    using pack_I_Inr [OF i] pack_f_Inr [OF a] pack_f_Inr [OF b] pack_f_Inr [OF c]
      pack_f_Inr [OF d] s1 s2 s3 s4 s5
    by (simp add: pack_d_def)
qed

lemma struct_pack_total:
  assumes "0 \<le> i" and "i < 2 ^ 32"
      and "is_inf32 (narrow a) \<longrightarrow> is_inf64 a" and "is_inf32 (narrow b) \<longrightarrow> is_inf64 b"
      and "is_inf32 (narrow c) \<longrightarrow> is_inf64 c" and "is_inf32 (narrow d) \<longrightarrow> is_inf64 d"
  shows "\<exists>bs. struct_pack_Iffffd i a b c d t = Inr bs"
  using assms
  by (auto simp: struct_pack_Iffffd_def pack_then_def pack_I_def pack_f_def Let_def)

lemma packet_fields:
  assumes "bs = pack_be 4 i @ pack_be 4 a @ pack_be 4 b @ pack_be 4 c @ pack_be 4 d @ pack_be 8 t"
  shows "length bs = 28" and "take 4 bs = pack_be 4 i" and "take 4 (drop 4 bs) = pack_be 4 a"
    and "take 4 (drop 8 bs) = pack_be 4 b" and "take 4 (drop 12 bs) = pack_be 4 c"
    and "take 4 (drop 16 bs) = pack_be 4 d" and "drop 20 bs = pack_be 8 t"
  unfolding assms by (simp_all add: length_pack_be)

subsection \<open>Rounding to binary32\<close>

lemma man64_less: "man64 w < 2 ^ 52"
  by (simp add: man64_def)

lemma rne_shift_bounds: "M div 2 ^ k \<le> rne_shift M k \<and> rne_shift M k \<le> M div 2 ^ k + 1"
  by (simp add: rne_shift_def Let_def)

lemma rne_shift_error: "\<bar>real (rne_shift M k) * 2 ^ k - real M\<bar> \<le> 2 ^ k / 2"
proof -
  define q r where "q = M div 2 ^ k" and "r = M mod 2 ^ k"
  have "M = q * 2 ^ k + r" by (simp only: q_def r_def div_mult_mod_eq)
  then have M: "real M = real q * 2 ^ k + real r" by (metis of_nat_add of_nat_mult of_nat_numeral of_nat_power)
  have "r < 2 ^ k" by (simp add: r_def)
  then have "real r < real (2 ^ k)" by (simp only: of_nat_less_iff)
  then have r: "real r < 2 ^ k" by simp
  show ?thesis
  proof (cases "2 ^ k < 2 * r \<or> (2 * r = 2 ^ k \<and> odd q)")
    case True
    then have v: "rne_shift M k = q + 1" by (simp add: rne_shift_def Let_def q_def r_def)
    from True have "2 ^ k \<le> 2 * r" by auto
    then have "real (2 ^ k) \<le> real (2 * r)" by (simp only: of_nat_le_iff)
    then have "(2::real) ^ k \<le> 2 * real r" by simp
    then show ?thesis using r unfolding v M by (simp add: algebra_simps)
  next
    case False
    then have v: "rne_shift M k = q" by (simp add: rne_shift_def Let_def q_def r_def)
    from False have "2 * r \<le> 2 ^ k" by auto
    then have "real (2 * r) \<le> real (2 ^ k)" by (simp only: of_nat_le_iff)
    then have "2 * real r \<le> 2 ^ k" by simp
    then show ?thesis unfolding v M by (simp add: algebra_simps)
  qed
qed

subsection \<open>Fields of a narrowed value\<close>

lemma unat_word32_of_nat: "n < 2 ^ 32 \<Longrightarrow> unat (of_nat n :: 32 word) = n"
  by (simp add: unat_of_nat)

lemma div_2_23:
  assumes "mag < 2 ^ 31"
  shows "(2 ^ 31 + mag) div 2 ^ 23 mod 2 ^ 8 = mag div (2 ^ 23 :: nat)"
    and "mag div 2 ^ 23 mod 2 ^ 8 = mag div (2 ^ 23 :: nat)"
    and "(2 ^ 31 + mag) mod 2 ^ 23 = mag mod (2 ^ 23 :: nat)"
proof -
  have e: "(2::nat) ^ 31 = 2 ^ 8 * 2 ^ 23" by (simp flip: power_add)
  have "mag < 2 ^ 8 * 2 ^ 23" using assms unfolding e .
  then have l: "mag div 2 ^ 23 < 2 ^ 8" by (rule less_mult_imp_div_less)
  then show "mag div 2 ^ 23 mod 2 ^ 8 = mag div (2 ^ 23 :: nat)" by (rule mod_less)
  have "(2 ^ 8 * 2 ^ 23 + mag) div 2 ^ 23 = 2 ^ 8 + mag div (2 ^ 23 :: nat)"
    by (rule div_mult_self3) simp
  then have "(2 ^ 31 + mag) div 2 ^ 23 mod 2 ^ 8 = (2 ^ 8 + mag div (2 ^ 23 :: nat)) mod 2 ^ 8"
    unfolding e by (rule arg_cong)
  also have "\<dots> = mag div 2 ^ 23 mod 2 ^ 8" by (rule mod_add_self1)
  also have "\<dots> = mag div 2 ^ 23" using l by (rule mod_less)
  finally show "(2 ^ 31 + mag) div 2 ^ 23 mod 2 ^ 8 = mag div (2 ^ 23 :: nat)" .
  show "(2 ^ 31 + mag) mod 2 ^ 23 = mag mod (2 ^ 23 :: nat)"
    unfolding e by (rule mod_mult_self3)
qed

lemma fields32_of_nat:
  assumes "mag < 2 ^ 31"
  shows "sign32 (of_nat ((if sg then 2 ^ 31 else 0) + mag)) = sg"
    and "exp32 (of_nat ((if sg then 2 ^ 31 else 0) + mag)) = mag div 2 ^ 23"
    and "man32 (of_nat ((if sg then 2 ^ 31 else 0) + mag)) = mag mod 2 ^ 23"
proof -
  have u: "unat (of_nat ((if sg then 2 ^ 31 else 0) + mag) :: 32 word) =
        (if sg then 2 ^ 31 else 0) + mag"
    using assms by (intro unat_word32_of_nat) simp
  show "sign32 (of_nat ((if sg then 2 ^ 31 else 0) + mag)) = sg"
    unfolding sign32_def u using assms by simp
  show "exp32 (of_nat ((if sg then 2 ^ 31 else 0) + mag)) = mag div 2 ^ 23"
    unfolding exp32_def u using div_2_23 [OF assms] by (cases sg) (simp_all only: if_True if_False add_0)
  show "man32 (of_nat ((if sg then 2 ^ 31 else 0) + mag)) = mag mod 2 ^ 23"
    unfolding man32_def u using div_2_23 [OF assms] by (cases sg) (simp_all only: if_True if_False add_0)
qed

lemma mag32_subnormal:
  assumes "N \<le> 2 ^ 23"
  shows "mag32 (of_nat ((if sg then 2 ^ 31 else 0) + N)) = real N * 2 / 2 ^ 150"
proof -
  have lt: "N < 2 ^ 31" using assms by simp
  note f = fields32_of_nat [OF lt, of sg]
  show ?thesis
  proof (cases "N = 2 ^ 23")
    case True
    have "N div 2 ^ 23 = 1" and "N mod 2 ^ 23 = 0" unfolding True by simp_all
    then show ?thesis unfolding mag32_def f by (simp add: True)
  next
    case False
    then have "N < 2 ^ 23" using assms by simp
    then have "N div 2 ^ 23 = 0" and "N mod 2 ^ 23 = N" by simp_all
    then show ?thesis unfolding mag32_def f by simp
  qed
qed

lemma mag32_normal:
  assumes "2 ^ 23 \<le> N" and "N \<le> 2 ^ 24" and "g * 2 ^ 23 + N < 255 * 2 ^ 23"
  shows "mag32 (of_nat ((if sg then 2 ^ 31 else 0) + (g * 2 ^ 23 + N))) =
         real N * 2 ^ (g + 1) / 2 ^ 150"
proof -
  have lt: "g * 2 ^ 23 + N < 2 ^ 31" using assms(3) by simp
  note f = fields32_of_nat [OF lt, of sg]
  have d: "(g * 2 ^ 23 + N) div 2 ^ 23 = g + N div 2 ^ 23"
    by (rule div_mult_self3) simp
  have m: "(g * 2 ^ 23 + N) mod 2 ^ 23 = N mod 2 ^ 23"
    by (rule mod_mult_self3)
  show ?thesis
  proof (cases "N = 2 ^ 24")
    case True
    have "N div 2 ^ 23 = 2" and "N mod 2 ^ 23 = 0" unfolding True by simp_all
    then show ?thesis unfolding mag32_def f d m by (simp add: True)
  next
    case False
    then have u: "N < 2 ^ 24" using assms(2) by simp
    have "N div 2 ^ 23 = 1"
      by (rule div_nat_eqI) (use assms(1) u in simp_all)
    moreover have "N mod 2 ^ 23 = N - 2 ^ 23"
      using assms(1) u by (simp add: le_mod_geq)
    moreover have "real (2 ^ 23 + (N - 2 ^ 23)) = real N"
      using assms(1) by simp
    ultimately show ?thesis unfolding mag32_def f d m by (simp del: of_nat_add)
  qed
qed

lemma mag64_nonneg: "0 \<le> mag64 x"
  by (simp add: mag64_def)

lemma abs_valof64: "\<bar>valof64 x\<bar> = mag64 x"
  using mag64_nonneg [of x] by (simp add: valof64_def)

lemma rne_29:
  assumes "m < 2 ^ 52"
  shows "2 ^ 23 \<le> rne_shift (2 ^ 52 + m) 29 \<and> rne_shift (2 ^ 52 + m) 29 \<le> 2 ^ 24"
proof -
  have "(2 ^ 52 + m) div 2 ^ 29 < 2 ^ 24"
    by (rule less_mult_imp_div_less) (use assms in simp)
  moreover have "(2::nat) ^ 23 * 2 ^ 29 \<le> 2 ^ 52 + m" by simp
  then have "2 ^ 23 \<le> (2 ^ 52 + m) div 2 ^ 29"
    by (simp only: less_eq_div_iff_mult_less_eq zero_less_power zero_less_numeral)
  ultimately show ?thesis using rne_shift_bounds [of "2 ^ 52 + m" 29] by linarith
qed

lemma rne_deep:
  assumes "m < 2 ^ 52" and "30 \<le> k"
  shows "rne_shift (2 ^ 52 + m) k \<le> 2 ^ 23"
proof -
  have "(2::nat) ^ 30 \<le> 2 ^ k" using assms(2) by (intro power_increasing) simp_all
  then have "(2::nat) ^ 23 * 2 ^ 30 \<le> 2 ^ 23 * 2 ^ k" by (rule mult_left_mono) simp
  moreover have "2 ^ 52 + m < (2::nat) ^ 23 * 2 ^ 30" using assms(1) by simp
  ultimately have "2 ^ 52 + m < 2 ^ 23 * 2 ^ k" by linarith
  then have "(2 ^ 52 + m) div 2 ^ k < 2 ^ 23" by (rule less_mult_imp_div_less)
  then show ?thesis using rne_shift_bounds [of "2 ^ 52 + m" k] by linarith
qed

lemma narrow_mag_less:
  assumes "m < 2 ^ 52"
  shows "narrow_mag e m < 2 ^ 31"
proof -
  have "narrow_mag e m \<le> 255 * 2 ^ 23"
  proof (cases "e = 0 \<or> 897 \<le> e")
    case True
    then show ?thesis by (auto simp: narrow_mag_def)
  next
    case False
    then have "30 \<le> 926 - e" by linarith
    from rne_deep [OF assms this] False show ?thesis by (simp add: narrow_mag_def)
  qed
  then show ?thesis by simp
qed

lemma narrow_finite:
  assumes "is_finite64 x"
  shows "narrow x = of_nat ((if sign64 x then 2 ^ 31 else 0) + narrow_mag (exp64 x) (man64 x))"
  using assms by (simp add: narrow_def is_finite64_def Let_def)

lemma narrow_fields:
  assumes "is_finite64 x"
  shows "sign32 (narrow x) = sign64 x"
    and "exp32 (narrow x) = narrow_mag (exp64 x) (man64 x) div 2 ^ 23"
    and "man32 (narrow x) = narrow_mag (exp64 x) (man64 x) mod 2 ^ 23"
  unfolding narrow_finite [OF assms]
  by (rule fields32_of_nat [OF narrow_mag_less [OF man64_less]])+

lemma abs_valof_diff:
  assumes "sign32 w = sign64 x"
  shows "\<bar>valof32 w - valof64 x\<bar> = \<bar>mag32 w - mag64 x\<bar>"
  using assms by (auto simp: valof32_def valof64_def abs_minus_commute)

lemma narrow_error_zero_exp:
  assumes "is_finite64 x" and "exp64 x = 0"
  shows "\<bar>valof32 (narrow x) - valof64 x\<bar> \<le> 1 / 2 ^ 150"
proof -
  have n: "narrow x = of_nat ((if sign64 x then 2 ^ 31 else 0) + 0)"
    using assms by (simp add: narrow_finite narrow_mag_def)
  have "mag32 (narrow x) = real 0 * 2 / 2 ^ 150"
    unfolding n by (rule mag32_subnormal) simp
  then have z: "mag32 (narrow x) = 0" by simp
  have "real (man64 x) \<le> 2 ^ 52"
    using man64_less [of x] by (metis less_imp_le of_nat_le_iff of_nat_numeral of_nat_power)
  then have "real (man64 x) * 2 / 2 ^ 1075 \<le> 2 ^ 52 * 2 / 2 ^ 1075"
    by (intro divide_right_mono mult_right_mono) simp_all
  also have "\<dots> \<le> 1 / 2 ^ 150" by simp
  finally have "mag64 x \<le> 1 / 2 ^ 150" using assms(2) by (simp add: mag64_def)
  then show ?thesis
    using mag64_nonneg [of x]
    unfolding abs_valof_diff [OF narrow_fields(1) [OF assms(1)]] z by simp
qed

lemma narrow_error_normal:
  assumes fin: "is_finite64 x" and e: "897 \<le> exp64 x" and ov: "\<not> is_inf32 (narrow x)"
  shows "\<bar>valof32 (narrow x) - valof64 x\<bar> \<le> mag64 x / 2 ^ 24"
proof -
  define g where "g = exp64 x - 897"
  define M where "M = 2 ^ 52 + man64 x"
  define N where "N = rne_shift M 29"
  define P where "P = (2::real) ^ g"
  define Q where "Q = (2::real) ^ 897"
  define A where "A = (2::real) ^ 178"
  have eg: "exp64 x = g + 897" using e by (simp add: g_def)
  have N: "2 ^ 23 \<le> N" "N \<le> 2 ^ 24"
    using rne_29 [OF man64_less [of x]] by (simp_all add: N_def M_def)
  have nm: "narrow_mag (exp64 x) (man64 x) = min (255 * 2 ^ 23) (g * 2 ^ 23 + N)"
    using e by (simp add: narrow_mag_def g_def N_def M_def)
  have small: "g * 2 ^ 23 + N < 255 * 2 ^ 23"
  proof (rule ccontr)
    assume "\<not> g * 2 ^ 23 + N < 255 * 2 ^ 23"
    then have "narrow_mag (exp64 x) (man64 x) = 255 * 2 ^ 23" unfolding nm by simp
    then have "exp32 (narrow x) = 255" and "man32 (narrow x) = 0"
      unfolding narrow_fields [OF fin] by simp_all
    then show False using ov by (simp add: is_inf32_def)
  qed
  then have nm': "narrow_mag (exp64 x) (man64 x) = g * 2 ^ 23 + N" unfolding nm by simp
  have m32: "mag32 (narrow x) = real N * 2 ^ (g + 1) / 2 ^ 150"
    unfolding narrow_finite [OF fin] nm' by (rule mag32_normal [OF N small])
  have pos: "0 < P" "0 < Q" "0 < A" by (simp_all add: P_def Q_def A_def)
  have p1: "(2::real) ^ exp64 x = P * Q" unfolding eg P_def Q_def by (rule power_add)
  have p2: "(2::real) ^ 1075 = Q * A" unfolding Q_def A_def by (simp flip: power_add)
  have p3: "(2::real) ^ (g + 1) / 2 ^ 150 = 2 ^ 29 * P / A"
  proof -
    have "(2::real) ^ 178 = 2 ^ 29 * 2 ^ 149" by (simp flip: power_add)
    moreover have "(2::real) ^ 150 = 2 * 2 ^ 149" by (simp flip: power_Suc)
    ultimately show ?thesis unfolding A_def P_def by (simp add: field_simps)
  qed
  have m32': "mag32 (narrow x) = (real N * 2 ^ 29) * (P / A)"
    using p3 unfolding m32 by (simp add: field_simps)
  have "exp64 x \<noteq> 0" using e by simp
  then have "mag64 x = real M * (P * Q) / (Q * A)"
    unfolding mag64_def M_def p1 [symmetric] p2 [symmetric] by simp
  then have m64: "mag64 x = real M * (P / A)" using pos by simp
  have err: "\<bar>real N * 2 ^ 29 - real M\<bar> \<le> 2 ^ 29 / 2"
    unfolding N_def by (rule rne_shift_error)
  have "(2::nat) ^ 52 \<le> M" by (simp add: M_def)
  then have "real (2 ^ 52) \<le> real M" by (simp only: of_nat_le_iff)
  then have M52: "(2::real) ^ 52 \<le> real M" by simp
  have "(2::real) ^ 29 / 2 = 2 ^ 52 / 2 ^ 24" by simp
  also have "\<dots> \<le> real M / 2 ^ 24" using M52 by (intro divide_right_mono) simp_all
  finally have "\<bar>real N * 2 ^ 29 - real M\<bar> \<le> real M / 2 ^ 24" using err by linarith
  then have le: "\<bar>real N * 2 ^ 29 - real M\<bar> * (P / A) \<le> real M / 2 ^ 24 * (P / A)"
    by (rule mult_right_mono) (use pos in simp)
  have "mag32 (narrow x) - mag64 x = (real N * 2 ^ 29 - real M) * (P / A)"
    unfolding m32' m64 by (simp add: algebra_simps)
  then have "\<bar>mag32 (narrow x) - mag64 x\<bar> = \<bar>real N * 2 ^ 29 - real M\<bar> * (P / A)"
    using pos by (simp add: abs_mult)
  also note le
  also have "real M / 2 ^ 24 * (P / A) = mag64 x / 2 ^ 24" unfolding m64 by simp
  finally show ?thesis
    unfolding abs_valof_diff [OF narrow_fields(1) [OF fin]] .
qed

lemma narrow_error_deep:
  assumes fin: "is_finite64 x" and e: "0 < exp64 x" "exp64 x < 897"
  shows "\<bar>valof32 (narrow x) - valof64 x\<bar> \<le> 1 / 2 ^ 150"
proof -
  define k where "k = 926 - exp64 x"
  define M where "M = 2 ^ 52 + man64 x"
  define N where "N = rne_shift M k"
  define E where "E = (2::real) ^ exp64 x"
  define K where "K = (2::real) ^ k"
  define B where "B = (2::real) ^ 149"
  have k: "30 \<le> k" and ek: "exp64 x + k = 926" using e by (simp_all add: k_def)
  have N: "N \<le> 2 ^ 23"
    unfolding N_def M_def by (rule rne_deep [OF man64_less k])
  have nm: "narrow_mag (exp64 x) (man64 x) = N"
    using e by (simp add: narrow_mag_def k_def N_def M_def)
  have "mag32 (narrow x) = real N * 2 / 2 ^ 150"
    unfolding narrow_finite [OF fin] nm by (rule mag32_subnormal [OF N])
  moreover have b2: "(2::real) ^ 150 = 2 * B" unfolding B_def by (simp flip: power_Suc)
  ultimately have m32: "mag32 (narrow x) = real N / B" by simp
  have pos: "0 < E" "0 < K" "0 < B" by (simp_all add: E_def K_def B_def)
  have "E * K = 2 ^ (exp64 x + k)" unfolding E_def K_def by (rule power_add [symmetric])
  then have EK: "E * K = 2 ^ 926" unfolding ek .
  have "(2::real) ^ 1075 = 2 ^ 926 * B" unfolding B_def by (simp flip: power_add)
  then have p: "(2::real) ^ 1075 = E * K * B" unfolding EK .
  have "mag64 x = real M * E / (E * K * B)"
    using e(1) unfolding mag64_def M_def E_def [symmetric] p by simp
  then have m64: "mag64 x = real M / (K * B)" using pos by simp
  have err: "\<bar>real N * K - real M\<bar> \<le> K / 2"
    unfolding N_def K_def by (rule rne_shift_error)
  have "mag32 (narrow x) - mag64 x = (real N * K - real M) / (K * B)"
    unfolding m32 m64 using pos by (simp add: field_simps)
  then have "\<bar>mag32 (narrow x) - mag64 x\<bar> = \<bar>real N * K - real M\<bar> / (K * B)"
    using pos by (simp add: abs_mult)
  also have "\<dots> \<le> (K / 2) / (K * B)"
    using err by (rule divide_right_mono) (use pos in simp)
  also have "\<dots> = 1 / 2 ^ 150" unfolding b2 using pos by simp
  finally show ?thesis
    unfolding abs_valof_diff [OF narrow_fields(1) [OF fin]] .
qed

lemma narrow_error:
  assumes "is_finite64 x" and "\<not> is_inf32 (narrow x)"
  shows "\<bar>valof32 (narrow x) - valof64 x\<bar> \<le> float32_tolerance x"
proof -
  have lo: "1 / 2 ^ 150 \<le> float32_tolerance x"
    unfolding float32_tolerance_def by (rule max.cobounded2)
  have hi: "mag64 x / 2 ^ 24 \<le> float32_tolerance x"
    unfolding float32_tolerance_def abs_valof64 by (rule max.cobounded1)
  consider "exp64 x = 0" | "0 < exp64 x" "exp64 x < 897" | "897 \<le> exp64 x" by linarith
  then show ?thesis
  proof cases
    case 1
    from narrow_error_zero_exp [OF assms(1) 1] lo show ?thesis by (rule order_trans)
  next
    case 2
    from narrow_error_deep [OF assms(1) 2] lo show ?thesis by (rule order_trans)
  next
    case 3
    from narrow_error_normal [OF assms(1) 3 assms(2)] hi show ?thesis by (rule order_trans)
  qed
qed

subsection \<open>Hexadecimal text and the range of binary32\<close>

lemma nibble_set:
  assumes "n < (16::nat)"
  shows "n \<in> {0, 1, 2, 3, 4, 5, 6, 7, 8, 9, 10, 11, 12, 13, 14, 15}"
  using assms by (simp only: insert_iff empty_iff) presburger

lemma hex_digit_value:
  assumes "n < 16"
  shows "hex_value (hex_digit n) = Some n \<and> \<not> is_space (hex_digit n)"
  using nibble_set [OF assms]
  by (elim insertE emptyE) (simp_all add: hex_digit_def hex_value_def is_space_def)

lemma fromhex_hex: "fromhex (hex bs) = Inr bs"
proof (induction bs)
  case Nil
  then show ?case by (simp add: hex_def)
next
  case (Cons b bs)
  have h: "hex (b # bs) = hex_digit (unat b div 16) # hex_digit (unat b mod 16) # hex bs"
    by (simp add: hex_def)
  have "unat b < 2 ^ LENGTH(8)" by (rule unsigned_less)
  then have "unat b div 16 < 16" by simp
  note hi = hex_digit_value [OF this]
  have "unat b mod 16 < 16" by simp
  note lo = hex_digit_value [OF this]
  have "(of_nat (16 * (unat b div 16) + unat b mod 16) :: byte) = of_nat (unat b)"
    by (simp only: mult_div_mod_eq)
  then have b: "(of_nat (16 * (unat b div 16) + unat b mod 16) :: byte) = b" by simp
  show ?case
    unfolding h using hi lo Cons.IH by (simp add: b)
qed

subsection \<open>Values that fit binary32\<close>

lemma narrow_nan_not_inf:
  assumes "exp64 x = 2047" and "man64 x \<noteq> 0"
  shows "\<not> is_inf32 (narrow x)"
proof -
  define r where "r = (man64 x div 2 ^ 29) mod 2 ^ 22"
  have r: "r < 2 ^ 22" by (simp add: r_def)
  have n: "narrow x = of_nat ((if sign64 x then 2 ^ 31 else 0) + (255 * 2 ^ 23 + 2 ^ 22 + r))"
    using assms by (simp add: narrow_def Let_def r_def add.assoc)
  have lt: "255 * 2 ^ 23 + 2 ^ 22 + r < 2 ^ 31" using r by simp
  have "(255 * 2 ^ 23 + (2 ^ 22 + r)) mod 2 ^ 23 = (2 ^ 22 + r) mod 2 ^ 23"
    by (rule mod_mult_self3)
  also have "\<dots> = 2 ^ 22 + r" using r by simp
  finally have "man32 (narrow x) \<noteq> 0"
    unfolding n fields32_of_nat [OF lt] by (simp add: add.assoc)
  then show ?thesis by (simp add: is_inf32_def)
qed

lemma mag64_large:
  assumes "1150 \<le> exp64 x"
  shows "2 ^ 127 \<le> mag64 x"
proof -
  define M where "M = 2 ^ 52 + man64 x"
  have "(2::nat) ^ 52 \<le> M" by (simp add: M_def)
  then have "real (2 ^ 52) \<le> real M" by (simp only: of_nat_le_iff)
  then have M: "(2::real) ^ 52 \<le> real M" by simp
  have E: "(2::real) ^ 1150 \<le> 2 ^ exp64 x" using assms by (intro power_increasing) simp_all
  have "(2::real) ^ 52 * 2 ^ 1150 \<le> real M * 2 ^ exp64 x"
    using M E by (intro mult_mono) simp_all
  then have "(2::real) ^ 52 * 2 ^ 1150 / 2 ^ 1075 \<le> real M * 2 ^ exp64 x / 2 ^ 1075"
    by (intro divide_right_mono) simp_all
  moreover have "(2::real) ^ 52 * 2 ^ 1150 / 2 ^ 1075 = 2 ^ 127" by simp
  moreover have "mag64 x = real M * 2 ^ exp64 x / 2 ^ 1075"
    using assms by (simp add: mag64_def M_def)
  ultimately show ?thesis by simp
qed

lemma narrow_in_range:
  assumes "is_finite64 x" and "\<bar>valof64 x\<bar> < 2 ^ 127"
  shows "\<not> is_inf32 (narrow x)"
proof -
  have e: "exp64 x \<le> 1149"
  proof (rule ccontr)
    assume "\<not> exp64 x \<le> 1149"
    then have "1150 \<le> exp64 x" by simp
    from mag64_large [OF this] assms(2) show False by (simp add: abs_valof64)
  qed
  define mag where "mag = narrow_mag (exp64 x) (man64 x)"
  have "mag \<le> 254 * 2 ^ 23"
  proof (cases "897 \<le> exp64 x")
    case True
    have "(exp64 x - 897) * 2 ^ 23 \<le> 252 * 2 ^ 23"
      using e by (intro mult_right_mono) simp_all
    moreover have "rne_shift (2 ^ 52 + man64 x) 29 \<le> 2 ^ 24"
      using rne_29 [OF man64_less [of x]] by simp
    ultimately have "(exp64 x - 897) * 2 ^ 23 + rne_shift (2 ^ 52 + man64 x) 29 \<le> 254 * 2 ^ 23"
      by simp
    then show ?thesis using True unfolding mag_def narrow_mag_def by simp
  next
    case False
    show ?thesis
    proof (cases "exp64 x = 0")
      case True
      then show ?thesis by (simp add: mag_def narrow_mag_def)
    next
      case nz: False
      have "30 \<le> 926 - exp64 x" using False by linarith
      from rne_deep [OF man64_less this, of x] False nz show ?thesis
        by (simp add: mag_def narrow_mag_def)
    qed
  qed
  then have "mag < 255 * 2 ^ 23" by simp
  then have "mag div 2 ^ 23 < 255" by (rule less_mult_imp_div_less)
  then have "exp32 (narrow x) \<noteq> 255"
    unfolding narrow_fields [OF assms(1)] mag_def by simp
  then show ?thesis by (simp add: is_inf32_def)
qed

lemma packs_as_float32:
  assumes "is_finite64 x \<longrightarrow> \<bar>valof64 x\<bar> < 2 ^ 127"
  shows "is_inf32 (narrow x) \<longrightarrow> is_inf64 x"
proof (cases "is_finite64 x")
  case True
  with assms narrow_in_range [of x] show ?thesis by blast
next
  case False
  have "exp64 x < 2048" by (simp add: exp64_def)
  with False have e: "exp64 x = 2047" by (simp add: is_finite64_def)
  show ?thesis
  proof (cases "man64 x = 0")
    case True
    then show ?thesis using e by (simp add: is_inf64_def)
  next
    case False
    from narrow_nan_not_inf [OF e False] show ?thesis by simp
  qed
qed

subsection \<open>The packet\<close>

lemma quantum_metrics_payload:
  assumes "calculate_quantum_metrics eph k sat now t = Inr (p, k')"
  shows "\<exists>bs. struct_pack_Iffffd (ident p) (lat p) (lon p) (alt p) 0 t = Inr bs \<and>
           fromhex (binary_payload p) = Inr bs \<and> ident p = satnum sat"
  using assms
  by (auto simp: calculate_quantum_metrics_def Let_def fromhex_hex split: sum.splits)

lemma quantum_metrics_returns:
  assumes "eph sat now = Inr sp"
      and "struct_pack_Iffffd (satnum sat) (latitude_degrees sp) (longitude_degrees sp)
             (elevation_km sp) 0 t = Inr bs"
  shows "\<exists>p k'. calculate_quantum_metrics eph k sat now t = Inr (p, k') \<and>
           fromhex (binary_payload p) = Inr bs"
  using assms by (simp add: calculate_quantum_metrics_def Let_def fromhex_hex)

lemma zero_packs: "is_inf32 (narrow 0) \<longrightarrow> is_inf64 0"
  by (simp add: float_defs)

lemma packet_layout:
  assumes "struct_pack_Iffffd j a b c d u = Inr bs"
  shows "length bs = 28 \<and> unpack_be (take 4 bs) = nat j \<and>
      unpack_be (take 4 (drop 4 bs)) = unat (narrow a) \<and>
      unpack_be (take 4 (drop 8 bs)) = unat (narrow b) \<and>
      unpack_be (take 4 (drop 12 bs)) = unat (narrow c) \<and>
      unpack_be (take 4 (drop 16 bs)) = unat (narrow d) \<and>
      unpack_be (drop 20 bs) = unat u"
proof -
  note sh = struct_pack_Inr [OF assms]
  from sh have "0 \<le> j" and "j < 2 ^ 32" by blast+
  then have n: "nat j < 2 ^ 32" by simp
  from sh have "bs = pack_be 4 (nat j) @ pack_be 4 (unat (narrow a)) @
    pack_be 4 (unat (narrow b)) @ pack_be 4 (unat (narrow c)) @
    pack_be 4 (unat (narrow d)) @ pack_be 8 (unat u)" by blast
  note f = packet_fields [OF this]
  show ?thesis
    unfolding f
    by (simp only: unpack_pack_be_32 unpack_pack_be_64 unpack_pack_be_nat [OF n] simp_thms)
qed

text \<open>
  C3. When the identifier is a uint32 and the four float fields fit binary32, encoding
  returns a record of exactly 28 bytes: read most significant byte first, bytes 0-3 are
  the identifier, bytes 4-7, 8-11, 12-15 and 16-19 are the binary32 patterns of latitude,
  longitude, altitude and doppler, and bytes 20-27 are the binary64 pattern of the
  timestamp. For an object with that identifier whose ephemeris returns that latitude,
  longitude and altitude, \<^verbatim>\<open>calculate_quantum_metrics\<close> of satyo.py returns a sample whose
  payload is such a record, with the pattern of 0.0 in the doppler field; and every
  payload it returns has this size and layout.
\<close>

theorem encode_layout:
  assumes "0 \<le> i" and "i < 2 ^ 32"
      and "\<forall>x \<in> {la, lo, al, dp}. is_finite64 x \<longrightarrow> \<bar>valof64 x\<bar> < 2 ^ 127"
  shows "(\<exists>bs. encode_binary_packet i la lo al dp t = Inr bs \<and> length bs = 28 \<and>
            unpack_be (take 4 bs) = nat i \<and>
            unpack_be (take 4 (drop 4 bs)) = unat (narrow la) \<and>
            unpack_be (take 4 (drop 8 bs)) = unat (narrow lo) \<and>
            unpack_be (take 4 (drop 12 bs)) = unat (narrow al) \<and>
            unpack_be (take 4 (drop 16 bs)) = unat (narrow dp) \<and>
            unpack_be (drop 20 bs) = unat t) \<and>
         (\<forall>eph k sat now sp.
            eph sat now = Inr sp \<and> satnum sat = i \<and> latitude_degrees sp = la \<and>
            longitude_degrees sp = lo \<and> elevation_km sp = al \<longrightarrow>
            (\<exists>p k' bs. calculate_quantum_metrics eph k sat now t = Inr (p, k') \<and>
               fromhex (binary_payload p) = Inr bs \<and> length bs = 28 \<and>
               unpack_be (take 4 bs) = nat i \<and>
               unpack_be (take 4 (drop 4 bs)) = unat (narrow la) \<and>
               unpack_be (take 4 (drop 8 bs)) = unat (narrow lo) \<and>
               unpack_be (take 4 (drop 12 bs)) = unat (narrow al) \<and>
               unpack_be (take 4 (drop 16 bs)) = unat (narrow 0) \<and>
               unpack_be (drop 20 bs) = unat t)) \<and>
         (\<forall>eph k sat now p k'. calculate_quantum_metrics eph k sat now t = Inr (p, k') \<longrightarrow>
            (\<exists>bs. fromhex (binary_payload p) = Inr bs \<and> length bs = 28 \<and>
               unpack_be (take 4 bs) = nat (satnum sat) \<and>
               unpack_be (take 4 (drop 4 bs)) = unat (narrow (lat p)) \<and>
               unpack_be (take 4 (drop 8 bs)) = unat (narrow (lon p)) \<and>
               unpack_be (take 4 (drop 12 bs)) = unat (narrow (alt p)) \<and>
               unpack_be (take 4 (drop 16 bs)) = unat (narrow 0) \<and>
               unpack_be (drop 20 bs) = unat t))"
proof -
  have r: "is_inf32 (narrow x) \<longrightarrow> is_inf64 x" if "x \<in> {la, lo, al, dp}" for x
    using assms(3) that by (intro packs_as_float32) blast
  from struct_pack_total [OF assms(1,2) r r r r, of la lo al dp t]
  obtain bs where bs: "struct_pack_Iffffd i la lo al dp t = Inr bs" by auto
  have first: "\<exists>bs. encode_binary_packet i la lo al dp t = Inr bs \<and> length bs = 28 \<and>
            unpack_be (take 4 bs) = nat i \<and>
            unpack_be (take 4 (drop 4 bs)) = unat (narrow la) \<and>
            unpack_be (take 4 (drop 8 bs)) = unat (narrow lo) \<and>
            unpack_be (take 4 (drop 12 bs)) = unat (narrow al) \<and>
            unpack_be (take 4 (drop 16 bs)) = unat (narrow dp) \<and>
            unpack_be (drop 20 bs) = unat t"
    using bs packet_layout [OF bs] unfolding encode_binary_packet_def by blast
  from struct_pack_total [OF assms(1,2) r r r zero_packs, of la lo al t]
  obtain cs where cs: "struct_pack_Iffffd i la lo al 0 t = Inr cs" by auto
  have produced: "\<exists>p k' bs. calculate_quantum_metrics eph k sat now t = Inr (p, k') \<and>
               fromhex (binary_payload p) = Inr bs \<and> length bs = 28 \<and>
               unpack_be (take 4 bs) = nat i \<and>
               unpack_be (take 4 (drop 4 bs)) = unat (narrow la) \<and>
               unpack_be (take 4 (drop 8 bs)) = unat (narrow lo) \<and>
               unpack_be (take 4 (drop 12 bs)) = unat (narrow al) \<and>
               unpack_be (take 4 (drop 16 bs)) = unat (narrow 0) \<and>
               unpack_be (drop 20 bs) = unat t"
    if h: "eph sat now = Inr sp \<and> satnum sat = i \<and> latitude_degrees sp = la \<and>
            longitude_degrees sp = lo \<and> elevation_km sp = al" for eph k sat now sp
  proof -
    from h have e: "eph sat now = Inr sp" by blast
    from h cs have "struct_pack_Iffffd (satnum sat) (latitude_degrees sp)
        (longitude_degrees sp) (elevation_km sp) 0 t = Inr cs" by simp
    from quantum_metrics_returns [where eph = eph and sat = sat and now = now and sp = sp
        and t = t and bs = cs and k = k, OF e this] packet_layout [OF cs]
    show ?thesis by blast
  qed
  have returned: "\<exists>bs. fromhex (binary_payload p) = Inr bs \<and> length bs = 28 \<and>
               unpack_be (take 4 bs) = nat (satnum sat) \<and>
               unpack_be (take 4 (drop 4 bs)) = unat (narrow (lat p)) \<and>
               unpack_be (take 4 (drop 8 bs)) = unat (narrow (lon p)) \<and>
               unpack_be (take 4 (drop 12 bs)) = unat (narrow (alt p)) \<and>
               unpack_be (take 4 (drop 16 bs)) = unat (narrow 0) \<and>
               unpack_be (drop 20 bs) = unat t"
    if "calculate_quantum_metrics eph k sat now t = Inr (p, k')" for eph k sat now p k'
  proof -
    from quantum_metrics_payload [OF that] obtain ds where
      ds: "struct_pack_Iffffd (ident p) (lat p) (lon p) (alt p) 0 t = Inr ds"
      and h: "fromhex (binary_payload p) = Inr ds" and i: "ident p = satnum sat"
      by (elim exE conjE)
    from packet_layout [OF ds] h show ?thesis unfolding i by blast
  qed
  show ?thesis
    apply (intro conjI allI impI)
      apply (rule first)
     apply (erule produced)
    apply (erule returned)
    done
qed

theorem encode_layout_witness:
  "(0::int) \<le> 25544 \<and> (25544::int) < 2 ^ 32 \<and>
   is_finite64 0x4028D70A3D70A3D7 \<and> \<bar>valof64 0x4028D70A3D70A3D7\<bar> < 2 ^ 127 \<and>
   is_finite64 0x406203D70A3D70A4 \<and> \<bar>valof64 0x406203D70A3D70A4\<bar> < 2 ^ 127 \<and>
   is_finite64 0x4079A00000000000 \<and> \<bar>valof64 0x4079A00000000000\<bar> < 2 ^ 127 \<and>
   is_finite64 0x3F287EA0D43BA9F6 \<and> \<bar>valof64 0x3F287EA0D43BA9F6\<bar> < 2 ^ 127 \<and>
   encode_binary_packet 25544 0x4028D70A3D70A3D7 0x406203D70A3D70A4 0x4079A00000000000
     0x3F287EA0D43BA9F6 0x41D954FC40200000 =
     Inr [0, 0, 99, 200, 65, 70, 184, 82, 67, 16, 30, 184, 67, 205, 0, 0, 57, 67, 245, 7,
          65, 217, 84, 252, 64, 32, 0, 0] \<and>
   length [0, 0, 99, 200, 65, 70, 184, 82, 67, 16, 30, 184, 67, 205, 0, 0, 57, 67, 245, 7,
          65, 217, 84, 252, 64, 32, 0, 0 :: byte] = 28 \<and>
   unpack_be [0, 0, 99, 200] = 25544 \<and>
   unpack_be [65, 70, 184, 82] = unat (narrow 0x4028D70A3D70A3D7) \<and>
   unpack_be [57, 67, 245, 7] = unat (narrow 0x3F287EA0D43BA9F6) \<and>
   unpack_be [65, 217, 84, 252, 64, 32, 0, 0] = unat (0x41D954FC40200000 :: pyfloat) \<and>
   mock_ephemeris iss 0 =
     Inr \<lparr>latitude_degrees = 0x4028D70A3D70A3D7, longitude_degrees = 0x406203D70A3D70A4,
          elevation_km = 0x4079A00000000000, distance_km = 0x4089000000000000,
          speed_km_per_s = 0x4012000000000000\<rparr> \<and>
   satnum iss = 25544 \<and>
   calculate_quantum_metrics mock_ephemeris
     \<lparr>ghost_enabled = False, ghost_vault = Map.empty\<rparr> iss 0 0x41D954FC40200000 =
     Inr (iss_packet, \<lparr>ghost_enabled = False, ghost_vault = Map.empty\<rparr>) \<and>
   fromhex (binary_payload iss_packet) =
     Inr [0, 0, 99, 200, 65, 70, 184, 82, 67, 16, 30, 184, 67, 205, 0, 0, 0, 0, 0, 0,
          65, 217, 84, 252, 64, 32, 0, 0] \<and>
   length [0, 0, 99, 200, 65, 70, 184, 82, 67, 16, 30, 184, 67, 205, 0, 0, 0, 0, 0, 0,
          65, 217, 84, 252, 64, 32, 0, 0 :: byte] = 28 \<and>
   unpack_be [67, 16, 30, 184] = unat (narrow 0x406203D70A3D70A4) \<and>
   unpack_be [0, 0, 0, 0] = unat (narrow 0)"
proof -
  let ?k = "\<lparr>ghost_enabled = False, ghost_vault = Map.empty\<rparr>"
  let ?sp = "\<lparr>latitude_degrees = 0x4028D70A3D70A3D7, longitude_degrees = 0x406203D70A3D70A4,
          elevation_km = 0x4079A00000000000, distance_km = 0x4089000000000000,
          speed_km_per_s = 0x4012000000000000\<rparr>"
  have r: "\<forall>x \<in> {0x4028D70A3D70A3D7, 0x406203D70A3D70A4, 0x4079A00000000000,
             0x3F287EA0D43BA9F6 :: pyfloat}. is_finite64 x \<longrightarrow> \<bar>valof64 x\<bar> < 2 ^ 127"
    using scenario_finite by simp
  have i: "(0::int) \<le> 25544" "(25544::int) < 2 ^ 32" by simp_all
  note inst = encode_layout [OF i r, of "0x41D954FC40200000"]
  from inst
  obtain bs where bs: "encode_binary_packet 25544 0x4028D70A3D70A3D7 0x406203D70A3D70A4
       0x4079A00000000000 0x3F287EA0D43BA9F6 0x41D954FC40200000 = Inr bs"
    and l: "length bs = 28" "unpack_be (take 4 bs) = nat 25544"
      "unpack_be (take 4 (drop 4 bs)) = unat (narrow 0x4028D70A3D70A3D7)"
      "unpack_be (take 4 (drop 16 bs)) = unat (narrow 0x3F287EA0D43BA9F6)"
      "unpack_be (drop 20 bs) = unat (0x41D954FC40200000 :: pyfloat)"
    by blast
  from bs have e: "bs = [0, 0, 99, 200, 65, 70, 184, 82, 67, 16, 30, 184, 67, 205, 0, 0,
       57, 67, 245, 7, 65, 217, 84, 252, 64, 32, 0, 0]"
    by (simp add: scenario_packet)
  have m: "mock_ephemeris iss 0 = Inr ?sp" by (simp add: mock_ephemeris_def)
  have n: "satnum iss = 25544" by (simp add: iss_def)
  have h: "mock_ephemeris iss 0 = Inr ?sp \<and> satnum iss = 25544 \<and>
      latitude_degrees ?sp = 0x4028D70A3D70A3D7 \<and>
      longitude_degrees ?sp = 0x406203D70A3D70A4 \<and> elevation_km ?sp = 0x4079A00000000000"
    using m n by simp
  from inst h
  obtain p k' cs where c: "calculate_quantum_metrics mock_ephemeris ?k iss 0
       0x41D954FC40200000 = Inr (p, k')"
    and f: "fromhex (binary_payload p) = Inr cs"
    and g: "length cs = 28" "unpack_be (take 4 (drop 8 cs)) = unat (narrow 0x406203D70A3D70A4)"
      "unpack_be (take 4 (drop 16 cs)) = unat (narrow 0)"
    by blast
  have c': "calculate_quantum_metrics mock_ephemeris ?k iss 0 0x41D954FC40200000 =
     Inr (iss_packet, ?k)"
    by (simp add: mock_metrics iss_packet_def)
  from c c' have p: "p = iss_packet" by simp
  have x: "fromhex (binary_payload iss_packet) =
     Inr [0, 0, 99, 200, 65, 70, 184, 82, 67, 16, 30, 184, 67, 205, 0, 0, 0, 0, 0, 0,
          65, 217, 84, 252, 64, 32, 0, 0]"
    by (simp add: iss_packet_def hex_value_def is_space_def)
  from f x have cs: "cs = [0, 0, 99, 200, 65, 70, 184, 82, 67, 16, 30, 184, 67, 205, 0, 0,
       0, 0, 0, 0, 65, 217, 84, 252, 64, 32, 0, 0]" unfolding p by simp
  show ?thesis
    using scenario_finite scenario_packet l m n c' x g unfolding e cs by simp
qed

lemma word_of_unpack_32: "(of_nat (unpack_be (pack_be 4 (unat (w :: 32 word)))) :: 32 word) = w"
  by (simp add: unpack_pack_be_32)

lemma word_of_unpack_64: "(of_nat (unpack_be (pack_be 8 (unat (w :: 64 word)))) :: 64 word) = w"
  by (simp add: unpack_pack_be_64)

lemma decode_packet:
  assumes "bs = pack_be 4 i @ pack_be 4 (unat a) @ pack_be 4 (unat b) @ pack_be 4 (unat c) @
             pack_be 4 (unat d) @ pack_be 8 (unat t)"
      and "i < 2 ^ 32"
  shows "decode bs = Inr \<lparr>rec_identifier = i, rec_latitude = a, rec_longitude = b,
           rec_altitude = c, rec_doppler = d, rec_timestamp = t\<rparr>"
  unfolding decode_def packet_fields [OF assms(1)]
  by (simp only: word_of_unpack_32 word_of_unpack_64 unpack_pack_be_nat [OF assms(2)]) simp

text \<open>
  C4. For a sample with finite fields that encodes, decoding the encoded record returns
  the identifier and the timestamp exactly, and latitude, longitude, altitude and doppler
  within the float32 rounding tolerance: half a unit in the last place, that is a relative
  error of at most 2 to the power -24, or an error of at most 2 to the power -150 for
  values below the normal range.
\<close>

theorem decode_encode_round_trip:
  assumes "encode_binary_packet i la lo al dp t = Inr bs"
      and "is_finite64 la" and "is_finite64 lo" and "is_finite64 al" and "is_finite64 dp"
  shows "\<exists>r. decode bs = Inr r \<and> int (rec_identifier r) = i \<and> rec_timestamp r = t \<and>
           \<bar>valof32 (rec_latitude r) - valof64 la\<bar> \<le> float32_tolerance la \<and>
           \<bar>valof32 (rec_longitude r) - valof64 lo\<bar> \<le> float32_tolerance lo \<and>
           \<bar>valof32 (rec_altitude r) - valof64 al\<bar> \<le> float32_tolerance al \<and>
           \<bar>valof32 (rec_doppler r) - valof64 dp\<bar> \<le> float32_tolerance dp"
proof -
  have p: "struct_pack_Iffffd i la lo al dp t = Inr bs"
    using assms(1) by (simp only: encode_binary_packet_def)
  note sh = struct_pack_Inr [OF p]
  from sh have i: "0 \<le> i" "i < 2 ^ 32" by blast+
  then have n: "nat i < 2 ^ 32" by simp
  from sh have bs: "bs = pack_be 4 (nat i) @ pack_be 4 (unat (narrow la)) @
      pack_be 4 (unat (narrow lo)) @ pack_be 4 (unat (narrow al)) @
      pack_be 4 (unat (narrow dp)) @ pack_be 8 (unat t)" by blast
  have fin: "\<not> is_inf64 x" if "is_finite64 x" for x
    using that by (simp add: is_finite64_def is_inf64_def)
  from sh assms(2-5) fin have ok: "\<not> is_inf32 (narrow la)" "\<not> is_inf32 (narrow lo)"
    "\<not> is_inf32 (narrow al)" "\<not> is_inf32 (narrow dp)" by blast+
  let ?r = "\<lparr>rec_identifier = nat i, rec_latitude = narrow la, rec_longitude = narrow lo,
           rec_altitude = narrow al, rec_doppler = narrow dp, rec_timestamp = t\<rparr>"
  have "decode bs = Inr ?r" by (rule decode_packet [OF bs n])
  moreover have "int (rec_identifier ?r) = i" using i(1) by simp
  moreover have "rec_timestamp ?r = t" by simp
  moreover have "\<bar>valof32 (rec_latitude ?r) - valof64 la\<bar> \<le> float32_tolerance la"
    using narrow_error [OF assms(2) ok(1)] by simp
  moreover have "\<bar>valof32 (rec_longitude ?r) - valof64 lo\<bar> \<le> float32_tolerance lo"
    using narrow_error [OF assms(3) ok(2)] by simp
  moreover have "\<bar>valof32 (rec_altitude ?r) - valof64 al\<bar> \<le> float32_tolerance al"
    using narrow_error [OF assms(4) ok(3)] by simp
  moreover have "\<bar>valof32 (rec_doppler ?r) - valof64 dp\<bar> \<le> float32_tolerance dp"
    using narrow_error [OF assms(5) ok(4)] by simp
  ultimately show ?thesis by blast
qed

theorem decode_encode_round_trip_witness:
  "encode_binary_packet 25544 0x4028D70A3D70A3D7 0x406203D70A3D70A4 0x4079A00000000000
     0x3F287EA0D43BA9F6 0x41D954FC40200000 =
     Inr [0, 0, 99, 200, 65, 70, 184, 82, 67, 16, 30, 184, 67, 205, 0, 0, 57, 67, 245, 7,
          65, 217, 84, 252, 64, 32, 0, 0] \<and>
   is_finite64 0x4028D70A3D70A3D7 \<and> is_finite64 0x406203D70A3D70A4 \<and>
   is_finite64 0x4079A00000000000 \<and> is_finite64 0x3F287EA0D43BA9F6 \<and>
   (\<exists>r. decode [0, 0, 99, 200, 65, 70, 184, 82, 67, 16, 30, 184, 67, 205, 0, 0, 57, 67,
                 245, 7, 65, 217, 84, 252, 64, 32, 0, 0] = Inr r \<and>
        int (rec_identifier r) = 25544 \<and> rec_timestamp r = 0x41D954FC40200000 \<and>
        \<bar>valof32 (rec_latitude r) - valof64 0x4028D70A3D70A3D7\<bar>
          \<le> float32_tolerance 0x4028D70A3D70A3D7 \<and>
        \<bar>valof32 (rec_longitude r) - valof64 0x406203D70A3D70A4\<bar>
          \<le> float32_tolerance 0x406203D70A3D70A4 \<and>
        \<bar>valof32 (rec_altitude r) - valof64 0x4079A00000000000\<bar>
          \<le> float32_tolerance 0x4079A00000000000 \<and>
        \<bar>valof32 (rec_doppler r) - valof64 0x3F287EA0D43BA9F6\<bar>
          \<le> float32_tolerance 0x3F287EA0D43BA9F6)"
proof -
  have f: "is_finite64 0x4028D70A3D70A3D7" "is_finite64 0x406203D70A3D70A4"
    "is_finite64 0x4079A00000000000" "is_finite64 0x3F287EA0D43BA9F6"
    using scenario_finite by blast+
  from decode_encode_round_trip [OF scenario_packet f] scenario_packet f
  show ?thesis by blast
qed

lemma narrow_zero: "pack_be 4 (unat (narrow 0)) = [0, 0, 0, 0]"
  by (simp add: float_defs pack_be_4)

text \<open>
  C7. In satyo.py the doppler field of every packet is the constant 0.0, whatever the
  range rate of the object is: the four bytes at offset 16 are zero.
\<close>

theorem satyo_packet_doppler_is_zero:
  assumes "calculate_quantum_metrics eph k sat now t = Inr (p, k')"
  shows "\<exists>bs. fromhex (binary_payload p) = Inr bs \<and> length bs = 28 \<and>
           take 4 (drop 16 bs) = [0, 0, 0, 0]"
proof -
  from quantum_metrics_payload [OF assms] obtain cs where
    cs: "struct_pack_Iffffd (ident p) (lat p) (lon p) (alt p) 0 t = Inr cs"
    and h: "fromhex (binary_payload p) = Inr cs" and "ident p = satnum sat"
    by (elim exE conjE)
  from struct_pack_Inr [OF cs]
  have "cs = pack_be 4 (nat (ident p)) @ pack_be 4 (unat (narrow (lat p))) @
      pack_be 4 (unat (narrow (lon p))) @ pack_be 4 (unat (narrow (alt p))) @
      pack_be 4 (unat (narrow 0)) @ pack_be 8 (unat t)" by blast
  note g = packet_fields [OF this]
  show ?thesis using h g(1) g(6) unfolding narrow_zero by blast
qed

theorem satyo_packet_doppler_is_zero_witness:
  "calculate_quantum_metrics mock_ephemeris
     \<lparr>ghost_enabled = False, ghost_vault = Map.empty\<rparr> iss 0 0x41D954FC40200000 =
     Inr (iss_packet, \<lparr>ghost_enabled = False, ghost_vault = Map.empty\<rparr>) \<and>
   speed_km_per_s (projr (mock_ephemeris iss 0)) = 0x4012000000000000 \<and>
   (\<exists>bs. fromhex (binary_payload iss_packet) = Inr bs \<and> length bs = 28 \<and>
      take 4 (drop 16 bs) = [0, 0, 0, 0])"
proof -
  have m: "calculate_quantum_metrics mock_ephemeris
     \<lparr>ghost_enabled = False, ghost_vault = Map.empty\<rparr> iss 0 0x41D954FC40200000 =
     Inr (iss_packet, \<lparr>ghost_enabled = False, ghost_vault = Map.empty\<rparr>)"
    by (simp add: mock_metrics iss_packet_def)
  have s: "speed_km_per_s (projr (mock_ephemeris iss 0)) = 0x4012000000000000"
    by (simp add: mock_ephemeris_def)
  from satyo_packet_doppler_is_zero [OF m] m s show ?thesis by blast
qed

section \<open>The pipeline\<close>

lemma run_append: "run P (us @ vs) s = run P vs (run P us s)"
  by (induction us arbitrary: s) simp_all

subsection \<open>The bound of the bus\<close>

lemma step_bus_bounded:
  "0 < maxsize P \<Longrightarrow> length (bus s) \<le> maxsize P \<Longrightarrow> length (bus (step P u s)) \<le> maxsize P"
  by (auto simp: step_def harvester_step_def consumer_step_def put_def full_def get_timeout_def
      split: turn.splits position.splits list.splits sum.splits)

lemma run_bus_bounded:
  "0 < maxsize P \<Longrightarrow> length (bus s) \<le> maxsize P \<Longrightarrow> length (bus (run P us s)) \<le> maxsize P"
  by (induction us arbitrary: s) (simp_all add: step_bus_bounded)

text \<open>
  C2. In satlen.py the bus never holds more than 1000 samples, in any state reached from
  start-up under any schedule; a put on a bus of 1000 samples leaves the harvester where
  it is, and a put on a shorter bus appends. In satyo.py the queue is built without a
  bound: a put never waits.
\<close>

theorem bus_bounded_in_satlen_only:
  assumes "satlen_main (Inr sats) = Inr s0"
  shows "maxsize (satlen fo eph) = 1000 \<and>
         length (bus (run (satlen fo eph) us s0)) \<le> 1000 \<and>
         (\<forall>s now rest d t. harvester s = Running \<and> pos s = AtPut now rest d \<and>
              length (bus s) = 1000 \<longrightarrow> harvester_step (satlen fo eph) t s = s) \<and>
         (\<forall>s now rest d t. harvester s = Running \<and> pos s = AtPut now rest d \<and>
              length (bus s) < 1000 \<longrightarrow>
              bus (harvester_step (satlen fo eph) t s) = bus s @ [d]) \<and>
         maxsize (satyo eph') = 0 \<and>
         (\<forall>s' now rest d t. harvester s' = Running \<and> pos s' = AtPut now rest d \<longrightarrow>
              bus (harvester_step (satyo eph') t s') = bus s' @ [d])"
proof -
  have m: "maxsize (satlen fo eph) = 1000" by (simp add: satlen_def)
  have "length (bus s0) \<le> maxsize (satlen fo eph)"
    using satlen_main_launch [OF assms] by (simp add: launch_def)
  then have "length (bus (run (satlen fo eph) us s0)) \<le> maxsize (satlen fo eph)"
    by (intro run_bus_bounded) (simp_all add: m)
  then show ?thesis
    by (auto simp: m harvester_step_def put_def full_def satyo_def)
qed

lemma satlen_main_iss:
  "satlen_main (Inr [iss]) =
   Inr (launch [iss] () \<lparr>BINARY_LOG = [], JSON_STREAM = [], RECOVERY_LOG = []\<rparr>)"
  by (simp add: satlen_main_def SatelliteKernel_init_def)

theorem bus_bounded_in_satlen_only_witness:
  "satlen_main (Inr [iss]) =
     Inr (launch [iss] () \<lparr>BINARY_LOG = [], JSON_STREAM = [], RECOVERY_LOG = []\<rparr>) \<and>
   length (bus (run (satlen scenario_float_ops mock_ephemeris)
     [Harvester 0x41D954FC40200000, Harvester 0x41D954FC40200000,
      Harvester 0x41D954FC40200000]
     (launch [iss] () \<lparr>BINARY_LOG = [], JSON_STREAM = [], RECOVERY_LOG = []\<rparr>))) \<le> 1000 \<and>
   harvester_step (satlen scenario_float_ops mock_ephemeris) 0
     ((launch [iss] () \<lparr>BINARY_LOG = [], JSON_STREAM = [], RECOVERY_LOG = []\<rparr>)
        \<lparr>bus := replicate 1000 (iss_telemetry 0), pos := AtPut 0 [] (iss_telemetry 0)\<rparr>) =
     (launch [iss] () \<lparr>BINARY_LOG = [], JSON_STREAM = [], RECOVERY_LOG = []\<rparr>)
        \<lparr>bus := replicate 1000 (iss_telemetry 0), pos := AtPut 0 [] (iss_telemetry 0)\<rparr> \<and>
   bus (harvester_step (satlen scenario_float_ops mock_ephemeris) 0
     ((launch [iss] () \<lparr>BINARY_LOG = [], JSON_STREAM = [], RECOVERY_LOG = []\<rparr>)
        \<lparr>bus := replicate 999 (iss_telemetry 0), pos := AtPut 0 [] (iss_telemetry 0)\<rparr>)) =
     replicate 999 (iss_telemetry 0) @ [iss_telemetry 0] \<and>
   bus (harvester_step (satyo mock_ephemeris) 0
     ((launch [iss] \<lparr>ghost_enabled = False, ghost_vault = Map.empty\<rparr>
         \<lparr>BINARY_CORE_FILE = [], DATA_MATRIX_FILE = []\<rparr>)
        \<lparr>bus := replicate 1000 iss_packet, pos := AtPut 0 [] iss_packet\<rparr>)) =
     replicate 1000 iss_packet @ [iss_packet]"
proof -
  let ?P = "satlen scenario_float_ops mock_ephemeris"
  let ?l = "launch [iss] () \<lparr>BINARY_LOG = [], JSON_STREAM = [], RECOVERY_LOG = []\<rparr>
              :: (telemetry, unit, satlen_files) system"
  let ?s = "\<lambda>n. ?l\<lparr>bus := replicate n (iss_telemetry 0), pos := AtPut 0 [] (iss_telemetry 0)\<rparr>"
  let ?y = "(launch [iss] \<lparr>ghost_enabled = False, ghost_vault = Map.empty\<rparr>
         \<lparr>BINARY_CORE_FILE = [], DATA_MATRIX_FILE = []\<rparr>)
        \<lparr>bus := replicate 1000 iss_packet, pos := AtPut 0 [] iss_packet\<rparr>"
  note inst = bus_bounded_in_satlen_only [OF satlen_main_iss, of scenario_float_ops
      mock_ephemeris "[Harvester 0x41D954FC40200000, Harvester 0x41D954FC40200000,
      Harvester 0x41D954FC40200000]" mock_ephemeris]
  have full: "harvester (?s 1000) = Running \<and> pos (?s 1000) = AtPut 0 [] (iss_telemetry 0) \<and>
              length (bus (?s 1000)) = 1000"
    by (simp add: launch_def)
  have room: "harvester (?s 999) = Running \<and> pos (?s 999) = AtPut 0 [] (iss_telemetry 0) \<and>
              length (bus (?s 999)) < 1000"
    by (simp add: launch_def)
  have unb: "harvester ?y = Running \<and> pos ?y = AtPut 0 [] iss_packet"
    by (simp add: launch_def)
  have b1: "harvester_step ?P 0 (?s 1000) = ?s 1000"
    using inst full by blast
  have b2: "bus (harvester_step ?P 0 (?s 999)) = bus (?s 999) @ [iss_telemetry 0]"
    using inst room by blast
  have b3: "length (bus (run ?P [Harvester 0x41D954FC40200000, Harvester 0x41D954FC40200000,
      Harvester 0x41D954FC40200000] ?l)) \<le> 1000"
    using inst by blast
  have b4: "bus (harvester_step (satyo mock_ephemeris) 0 ?y) = bus ?y @ [iss_packet]"
    using inst unb by blast
  show ?thesis using satlen_main_iss b1 b2 b3 b4 by simp
qed

lemma satyo_cycle:
  assumes "harvester s = Running" and "pos s = AtWhile" and "\<not> event s" and "swarm s = [iss]"
      and "kernel s = \<lparr>ghost_enabled = False, ghost_vault = Map.empty\<rparr>"
  shows "run (satyo mock_ephemeris)
           [Harvester 0x41D954FC40200000, Harvester 0x41D954FC40200000,
            Harvester 0x41D954FC40200000, Harvester 0x41D954FC40200000] s =
         s\<lparr>bus := bus s @ [iss_packet]\<rparr>"
  using assms
  by (simp add: step_def harvester_step_def satyo_def mock_metrics put_def full_def
      iss_packet_def)

lemma satyo_cycles:
  assumes "harvester s = Running" and "pos s = AtWhile" and "\<not> event s" and "swarm s = [iss]"
      and "kernel s = \<lparr>ghost_enabled = False, ghost_vault = Map.empty\<rparr>"
  shows "run (satyo mock_ephemeris)
           (concat (replicate n
             [Harvester 0x41D954FC40200000, Harvester 0x41D954FC40200000,
              Harvester 0x41D954FC40200000, Harvester 0x41D954FC40200000])) s =
         s\<lparr>bus := bus s @ replicate n iss_packet\<rparr>"
  using assms
proof (induction n arbitrary: s)
  case 0
  then show ?case by simp
next
  case (Suc n)
  let ?s = "s\<lparr>bus := bus s @ [iss_packet]\<rparr>"
  have "run (satyo mock_ephemeris)
          (concat (replicate n
             [Harvester 0x41D954FC40200000, Harvester 0x41D954FC40200000,
              Harvester 0x41D954FC40200000, Harvester 0x41D954FC40200000])) ?s =
        ?s\<lparr>bus := bus ?s @ replicate n iss_packet\<rparr>"
    by (rule Suc.IH) (simp_all add: Suc.prems)
  then show ?case
    using satyo_cycle [OF Suc.prems]
    by (simp add: run_append [of _ "[a, b, c, d]" for a b c d, simplified] replicate_app_Cons_same)
qed

text \<open>
  The bus of satyo.py after 1001 harvester cycles over one object, with no consumer turn
  in between, holds 1001 packets.
\<close>

theorem satyo_bus_exceeds_1000:
  "\<not> length (bus (run (satyo mock_ephemeris)
        (concat (replicate 1001
           [Harvester 0x41D954FC40200000, Harvester 0x41D954FC40200000,
            Harvester 0x41D954FC40200000, Harvester 0x41D954FC40200000]))
        (launch [iss] \<lparr>ghost_enabled = False, ghost_vault = Map.empty\<rparr>
           \<lparr>BINARY_CORE_FILE = [], DATA_MATRIX_FILE = []\<rparr>))) \<le> 1000"
  by (subst satyo_cycles) (simp_all add: launch_def)

subsection \<open>The anomaly log\<close>

lemma float_less_int_finite:
  "is_finite64 x \<Longrightarrow> float_less_int x k = (valof64 x < of_int k)"
  by (auto simp: float_less_int_def is_finite64_def is_nan64_def is_inf64_def)

text \<open>
  C5. When the consumer of satlen.py takes a sample from the bus, it appends one line to
  the recovery log if the SNR of the sample is below 20, and leaves the log as it is
  otherwise; the line carries the node id and the SNR of the sample.
\<close>

theorem anomaly_line_iff_snr_below_20:
  assumes "consumer s = Running" and "started s" and "\<not> event s" and "bus s = d # q"
  shows "RECOVERY_LOG (files (consumer_step (satlen fo eph) t s)) =
           (if float_less_int (snr d) 20
            then RECOVERY_LOG (files s) @
                   [\<lparr>line_time = t, line_node = node_id d, line_snr = snr d\<rparr>]
            else RECOVERY_LOG (files s)) \<and>
         (is_finite64 (snr d) \<longrightarrow> float_less_int (snr d) 20 = (valof64 (snr d) < 20))"
  using assms float_less_int_finite [of "snr d" 20]
  by (simp add: consumer_step_def satlen_def get_timeout_def storage_write_def Let_def)

theorem anomaly_line_iff_snr_below_20_witness:
  "RECOVERY_LOG (files (consumer_step (satlen scenario_float_ops mock_ephemeris)
     0x41D954FC40200000
     ((launch [iss] () \<lparr>BINARY_LOG = [], JSON_STREAM = [], RECOVERY_LOG = []\<rparr>)
        \<lparr>started := True, bus := [iss_telemetry 0x4032800000000000]\<rparr>))) =
     [\<lparr>line_time = 0x41D954FC40200000, line_node = 25544, line_snr = 0x4032800000000000\<rparr>] \<and>
   valof64 0x4032800000000000 < 20 \<and>
   RECOVERY_LOG (files (consumer_step (satlen scenario_float_ops mock_ephemeris)
     0x41D954FC40200000
     ((launch [iss] () \<lparr>BINARY_LOG = [], JSON_STREAM = [], RECOVERY_LOG = []\<rparr>)
        \<lparr>started := True, bus := [iss_telemetry 0x4039000000000000]\<rparr>))) = [] \<and>
   \<not> valof64 0x4039000000000000 < 20"
proof -
  let ?s = "\<lambda>x. (launch [iss] () \<lparr>BINARY_LOG = [], JSON_STREAM = [], RECOVERY_LOG = []\<rparr>)
        \<lparr>started := True, bus := [iss_telemetry x]\<rparr>"
  have a: "consumer (?s x) = Running \<and> started (?s x) \<and> \<not> event (?s x) \<and>
           bus (?s x) = iss_telemetry x # []" for x
    by (simp add: launch_def)
  note low = anomaly_line_iff_snr_below_20 [of "?s 0x4032800000000000"
      "iss_telemetry 0x4032800000000000" "[]" scenario_float_ops mock_ephemeris
      "0x41D954FC40200000"]
  note high = anomaly_line_iff_snr_below_20 [of "?s 0x4039000000000000"
      "iss_telemetry 0x4039000000000000" "[]" scenario_float_ops mock_ephemeris
      "0x41D954FC40200000"]
  show ?thesis
    using low high a snr_18_5 snr_25
    by (simp add: launch_def iss_telemetry_def)
qed

subsection \<open>Shutdown\<close>

text \<open>
  C1. A consumer that finds the event set leaves its loop without looking at the bus. In
  the run below the harvester of satyo.py puts one packet on the bus, the operator
  interrupts, and the consumer returns: the packet is still on the bus and the binary file
  holds the header only. The consumer of satlen.py does the same in any state.
\<close>

theorem shutdown_exits_without_drain:
  "consumer (run (satyo mock_ephemeris)
      [Consumer 0x41D954FC40200000, Harvester 0x41D954FC40200000,
       Harvester 0x41D954FC40200000, Harvester 0x41D954FC40200000, Interrupt,
       Consumer 0x41D954FC40200000]
      (launch [iss] \<lparr>ghost_enabled = False, ghost_vault = Map.empty\<rparr>
         \<lparr>BINARY_CORE_FILE = [], DATA_MATRIX_FILE = []\<rparr>)) = Returned \<and>
   map ident (bus (run (satyo mock_ephemeris)
      [Consumer 0x41D954FC40200000, Harvester 0x41D954FC40200000,
       Harvester 0x41D954FC40200000, Harvester 0x41D954FC40200000, Interrupt,
       Consumer 0x41D954FC40200000]
      (launch [iss] \<lparr>ghost_enabled = False, ghost_vault = Map.empty\<rparr>
         \<lparr>BINARY_CORE_FILE = [], DATA_MATRIX_FILE = []\<rparr>))) = [25544] \<and>
   files (run (satyo mock_ephemeris)
      [Consumer 0x41D954FC40200000, Harvester 0x41D954FC40200000,
       Harvester 0x41D954FC40200000, Harvester 0x41D954FC40200000, Interrupt,
       Consumer 0x41D954FC40200000]
      (launch [iss] \<lparr>ghost_enabled = False, ghost_vault = Map.empty\<rparr>
         \<lparr>BINARY_CORE_FILE = [], DATA_MATRIX_FILE = []\<rparr>)) =
     \<lparr>BINARY_CORE_FILE = ascii ''NEXUS-INTEL-V2-START'', DATA_MATRIX_FILE = []\<rparr> \<and>
   consumer_step (satlen fo eph) t (s\<lparr>consumer := Running, started := True, event := True\<rparr>) =
     s\<lparr>consumer := Returned, started := True, event := True\<rparr>"
  by (simp add: step_def harvester_step_def consumer_step_def launch_def satyo_def
      mock_metrics put_def full_def)

subsection \<open>An object whose ephemeris fails\<close>










subsection \<open>The tracked objects\<close>

lemma dumped_append: "dumped (xs @ ys) = dumped xs @ dumped ys"
  by (induction xs rule: dumped.induct) simp_all

lemma harvester_step_tracks:
  assumes acq: "\<And>k sat now t d k'. acquire P k sat now t = Inr (d, k') \<Longrightarrow> R d sat"
      and inv: "tracks R sw s"
  shows "tracks R sw (harvester_step P t s)"
proof (cases "harvester s = Running")
  case False
  then show ?thesis using inv by (simp add: harvester_step_def)
next
  case True
  show ?thesis
  proof (cases "pos s")
    case AtWhile
    then show ?thesis using inv True
      by (auto simp: harvester_step_def tracks_def cycle_rest_def in_flight_def)
  next
    case (InFor now sats)
    show ?thesis
    proof (cases sats)
      case Nil
      then show ?thesis using inv True InFor
        by (auto simp: harvester_step_def tracks_def cycle_rest_def in_flight_def)
    next
      case (Cons sat rest)
      show ?thesis
      proof (cases "acquire P (kernel s) sat now t")
        case (Inl e)
        then show ?thesis using inv True InFor Cons
          by (auto simp: harvester_step_def tracks_def cycle_rest_def in_flight_def)
      next
        case (Inr dk)
        then have "R (fst dk) sat" using acq [of "kernel s" sat now t "fst dk" "snd dk"] by simp
        moreover have "sat \<in> set sw" using inv InFor Cons by (auto simp: tracks_def cycle_rest_def)
        ultimately show ?thesis using inv True InFor Cons Inr
          by (auto simp: harvester_step_def tracks_def cycle_rest_def in_flight_def)
      qed
    qed
  next
    case (AtPut now rest d)
    then show ?thesis using inv True
      by (auto simp: harvester_step_def tracks_def cycle_rest_def in_flight_def put_def
          split: if_splits)
  qed
qed

lemma consumer_step_tracks:
  assumes inv: "tracks R sw s"
  shows "tracks R sw (consumer_step P t s)"
  using inv
  by (auto simp: consumer_step_def tracks_def get_timeout_def split: list.splits sum.splits)

lemma step_tracks:
  assumes "\<And>k sat now t d k'. acquire P k sat now t = Inr (d, k') \<Longrightarrow> R d sat"
      and "tracks R sw s"
  shows "tracks R sw (step P u s)"
proof (cases u)
  case (Harvester t)
  then show ?thesis using harvester_step_tracks [OF assms] by (simp add: step_def)
next
  case (Consumer t)
  then show ?thesis using consumer_step_tracks [OF assms(2)] by (simp add: step_def)
next
  case Interrupt
  then show ?thesis using assms(2) by (simp add: step_def tracks_def)
qed

lemma run_tracks:
  assumes "\<And>k sat now t d k'. acquire P k sat now t = Inr (d, k') \<Longrightarrow> R d sat"
      and "tracks R sw s"
  shows "tracks R sw (run P us s)"
  using assms(2)
proof (induction us arbitrary: s)
  case Nil
  then show ?case by simp
next
  case (Cons u us)
  show ?case using Cons.IH [OF step_tracks [OF assms(1) Cons.prems]] by simp
qed

lemma launch_tracks: "tracks R sw (launch sw k f)"
  by (simp add: tracks_def launch_def cycle_rest_def in_flight_def)

lemma handshake_blob:
  assumes "perform_handshake fo eph sat now t = Inr d"
  shows "struct_pack_Iffffd (node_id d) (fst (coords d)) (snd (coords d)) (altitude d)
           (doppler d) t = Inr (binary_blob d) \<and>
         node_name d = sat_name sat \<and> node_id d = satnum sat"
  using assms
  by (auto simp: perform_handshake_def encode_binary_packet_def Let_def split: sum.splits)

lemma satlen_acquire_from:
  assumes "acquire (satlen fo eph) k sat now t = Inr (d, k')"
  shows "telemetry_from d sat"
proof -
  from assms have "perform_handshake fo eph sat now t = Inr d"
    by (auto simp: satlen_def split: sum.splits)
  from handshake_blob [OF this] have
    p: "struct_pack_Iffffd (node_id d) (fst (coords d)) (snd (coords d)) (altitude d)
           (doppler d) t = Inr (binary_blob d)"
    and d: "node_name d = sat_name sat" "node_id d = satnum sat"
    by blast+
  from packet_layout [OF p] d show ?thesis by (simp add: telemetry_from_def)
qed

lemma satyo_acquire_from:
  assumes "acquire (satyo eph) k sat now t = Inr (p, k')"
  shows "packet_from p sat"
proof -
  from assms have c: "calculate_quantum_metrics eph k sat now t = Inr (p, k')"
    by (simp add: satyo_def)
  from quantum_metrics_payload [OF c] obtain bs where
    bs: "struct_pack_Iffffd (ident p) (lat p) (lon p) (alt p) 0 t = Inr bs"
    and h: "fromhex (binary_payload p) = Inr bs" and i: "ident p = satnum sat"
    by (elim exE conjE)
  from c have n: "node p = sat_name sat"
    by (auto simp: calculate_quantum_metrics_def Let_def split: sum.splits)
  from h have "payload_bytes p = bs" by (simp add: payload_bytes_def)
  with packet_layout [OF bs] i n h show ?thesis by (simp add: packet_from_def)
qed

lemma satlen_step_outputs:
  assumes "tracks telemetry_from sw s" and "satlen_outputs sw s"
  shows "satlen_outputs sw (step (satlen fo eph) u s)"
proof (cases u)
  case (Harvester t)
  have "files (harvester_step (satlen fo eph) t s) = files s \<and>
        started (harvester_step (satlen fo eph) t s) = started s"
    by (auto simp: harvester_step_def split: position.splits list.splits sum.splits option.splits)
  then show ?thesis using assms(2) Harvester by (simp add: step_def satlen_outputs_def)
next
  case (Consumer t)
  show ?thesis
  proof (cases "bus s")
    case Nil
    then show ?thesis using assms(2) Consumer
      by (auto simp: step_def consumer_step_def satlen_outputs_def get_timeout_def satlen_def)
  next
    case (Cons d q)
    then have "\<exists>sat \<in> set sw. telemetry_from d sat"
      using assms(1) by (auto simp: tracks_def)
    then obtain sat where sat: "sat \<in> set sw" "telemetry_from d sat" ..
    then have id: "\<exists>sat \<in> set sw. node_id d = satnum sat"
      by (auto simp: telemetry_from_def)
    show ?thesis using assms(2) Consumer Cons sat id
      by (auto simp: step_def consumer_step_def satlen_outputs_def get_timeout_def satlen_def
          storage_write_def Let_def dumped_append)
  qed
next
  case Interrupt
  then show ?thesis using assms(2) by (simp add: step_def satlen_outputs_def)
qed

lemma satyo_step_outputs:
  assumes "tracks packet_from sw s" and "satyo_outputs sw s"
  shows "satyo_outputs sw (step (satyo eph) u s)"
proof (cases u)
  case (Harvester t)
  have "files (harvester_step (satyo eph) t s) = files s \<and>
        started (harvester_step (satyo eph) t s) = started s"
    by (auto simp: harvester_step_def split: position.splits list.splits sum.splits option.splits)
  then show ?thesis using assms(2) Harvester by (simp add: step_def satyo_outputs_def)
next
  case (Consumer t)
  show ?thesis
  proof (cases "bus s")
    case Nil
    then show ?thesis using assms(2) Consumer
      by (auto simp: step_def consumer_step_def satyo_outputs_def get_timeout_def satyo_def)
  next
    case (Cons p q)
    then have "\<exists>sat \<in> set sw. packet_from p sat"
      using assms(1) by (auto simp: tracks_def)
    then show ?thesis using assms(2) Consumer Cons
      by (auto simp: step_def consumer_step_def satyo_outputs_def get_timeout_def satyo_def
          storage_kernel_write_def dumped_append payload_bytes_def split: sum.splits)
  qed
next
  case Interrupt
  then show ?thesis using assms(2) by (simp add: step_def satyo_outputs_def)
qed

lemma satlen_run_outputs:
  assumes "tracks telemetry_from sw s" and "satlen_outputs sw s"
  shows "satlen_outputs sw (run (satlen fo eph) us s)"
  using assms
proof (induction us arbitrary: s)
  case Nil
  then show ?case by simp
next
  case (Cons u us)
  have "tracks telemetry_from sw (step (satlen fo eph) u s)"
    by (rule step_tracks [OF satlen_acquire_from Cons.prems(1)])
  moreover have "satlen_outputs sw (step (satlen fo eph) u s)"
    by (rule satlen_step_outputs [OF Cons.prems])
  ultimately show ?case using Cons.IH by simp
qed

lemma satyo_run_outputs:
  assumes "tracks packet_from sw s" and "satyo_outputs sw s"
  shows "satyo_outputs sw (run (satyo eph) us s)"
  using assms
proof (induction us arbitrary: s)
  case Nil
  then show ?case by simp
next
  case (Cons u us)
  have "tracks packet_from sw (step (satyo eph) u s)"
    by (rule step_tracks [OF satyo_acquire_from Cons.prems(1)])
  moreover have "satyo_outputs sw (step (satyo eph) u s)"
    by (rule satyo_step_outputs [OF Cons.prems])
  ultimately show ?case using Cons.IH by simp
qed

lemma in_take_nth:
  assumes "x \<in> set (take n xs)"
  shows "\<exists>i < min n (length xs). x = xs ! i"
proof -
  from assms obtain i where i: "i < length (take n xs)" and x: "take n xs ! i = x"
    unfolding in_set_conv_nth by blast
  from i have "i < min n (length xs)" by simp
  moreover from i have "take n xs ! i = xs ! i" by simp
  ultimately show ?thesis using x by metis
qed

lemma tracks_bus:
  "tracks R sw s \<Longrightarrow> d \<in> set (bus s) \<Longrightarrow> \<exists>sat \<in> set sw. R d sat"
  unfolding tracks_def by (elim conjE) (erule bspec, simp)

lemma tracks_swarm: "tracks R sw s \<Longrightarrow> swarm s = sw"
  unfolding tracks_def by (elim conjE)

lemma satlen_outputs_dumped:
  "satlen_outputs sw s \<Longrightarrow> d \<in> set (dumped (JSON_STREAM (files s))) \<Longrightarrow>
   \<exists>sat \<in> set sw. telemetry_from d sat"
  unfolding satlen_outputs_def by (elim conjE) (erule bspec)

lemma satlen_outputs_binary:
  "satlen_outputs sw s \<Longrightarrow>
   BINARY_LOG (files s) = concat (map binary_blob (dumped (JSON_STREAM (files s))))"
  unfolding satlen_outputs_def by (elim conjE)

lemma satlen_outputs_recovery:
  "satlen_outputs sw s \<Longrightarrow> l \<in> set (RECOVERY_LOG (files s)) \<Longrightarrow>
   \<exists>sat \<in> set sw. line_node l = satnum sat"
  unfolding satlen_outputs_def by (elim conjE) (erule bspec)

lemma satyo_outputs_dumped:
  "satyo_outputs sw s \<Longrightarrow> p \<in> set (dumped (DATA_MATRIX_FILE (files s))) \<Longrightarrow>
   \<exists>sat \<in> set sw. packet_from p sat"
  unfolding satyo_outputs_def by (elim conjE) (erule bspec)

lemma satyo_outputs_binary:
  "satyo_outputs sw s \<Longrightarrow>
   BINARY_CORE_FILE (files s) =
     (if started s then ascii ''NEXUS-INTEL-V2-START'' else []) @
     concat (map payload_bytes (dumped (DATA_MATRIX_FILE (files s))))"
  unfolding satyo_outputs_def by (elim conjE)

lemma tracks_rest: "tracks R sw s \<Longrightarrow> set (cycle_rest (pos s)) \<subseteq> set sw"
  unfolding tracks_def by (elim conjE)

text \<open>
  C10. Both scripts track the first 100 entries of the catalog only, whatever its length.
  In every reachable state the swarm is \<open>take 100\<close> of the catalog and the objects still to
  be sampled in the current cycle are among them. Every sample on the bus or in the
  structured log carries the name and the number of an entry at a position below 100, and
  its 28-byte packet carries that number in its first four bytes. The binary file is the
  concatenation of the packets of the logged samples, after the header in satyo.py, and
  every line of the audit log of satlen.py names the number of an entry at a position
  below 100. So no output holds the name or the number of an entry beyond position 100
  unless an entry below 100 has the same.
\<close>

theorem only_first_100_tracked:
  assumes "satlen_main (Inr sats) = Inr s0" and "satyo_main g (Inr sats') = Inr s0'"
  shows "swarm (run (satlen fo eph) us s0) = take 100 sats \<and>
         set (cycle_rest (pos (run (satlen fo eph) us s0))) \<subseteq> set (take 100 sats) \<and>
         (\<forall>d. d \<in> set (bus (run (satlen fo eph) us s0)) \<or>
               d \<in> set (dumped (JSON_STREAM (files (run (satlen fo eph) us s0)))) \<longrightarrow>
            (\<exists>i < min 100 (length sats).
               node_name d = sat_name (sats ! i) \<and> node_id d = satnum (sats ! i) \<and>
               length (binary_blob d) = 28 \<and>
               unpack_be (take 4 (binary_blob d)) = nat (satnum (sats ! i)))) \<and>
         BINARY_LOG (files (run (satlen fo eph) us s0)) =
           concat (map binary_blob (dumped (JSON_STREAM (files (run (satlen fo eph) us s0))))) \<and>
         (\<forall>l. l \<in> set (RECOVERY_LOG (files (run (satlen fo eph) us s0))) \<longrightarrow>
            (\<exists>i < min 100 (length sats). line_node l = satnum (sats ! i))) \<and>
         swarm (run (satyo eph') us' s0') = take 100 sats' \<and>
         set (cycle_rest (pos (run (satyo eph') us' s0'))) \<subseteq> set (take 100 sats') \<and>
         (\<forall>p. p \<in> set (bus (run (satyo eph') us' s0')) \<or>
               p \<in> set (dumped (DATA_MATRIX_FILE (files (run (satyo eph') us' s0')))) \<longrightarrow>
            (\<exists>i < min 100 (length sats').
               node p = sat_name (sats' ! i) \<and> ident p = satnum (sats' ! i) \<and>
               fromhex (binary_payload p) = Inr (payload_bytes p) \<and>
               length (payload_bytes p) = 28 \<and>
               unpack_be (take 4 (payload_bytes p)) = nat (satnum (sats' ! i)))) \<and>
         BINARY_CORE_FILE (files (run (satyo eph') us' s0')) =
           (if started (run (satyo eph') us' s0') then ascii ''NEXUS-INTEL-V2-START'' else []) @
           concat (map payload_bytes
             (dumped (DATA_MATRIX_FILE (files (run (satyo eph') us' s0')))))"
proof -
  let ?r = "run (satlen fo eph) us s0" and ?r' = "run (satyo eph') us' s0'"
  have t0: "tracks telemetry_from (take 100 sats) s0"
    using satlen_main_launch [OF assms(1)] by (simp add: launch_tracks)
  have w0: "satlen_outputs (take 100 sats) s0"
    using satlen_main_launch [OF assms(1)] by (simp add: satlen_outputs_def launch_def)
  have t: "tracks telemetry_from (take 100 sats) ?r"
    by (rule run_tracks [OF satlen_acquire_from t0])
  have w: "satlen_outputs (take 100 sats) ?r"
    by (rule satlen_run_outputs [OF t0 w0])
  have t0': "tracks packet_from (take 100 sats') s0'"
    using satyo_main_launch [OF assms(2)] by (simp add: launch_tracks)
  have w0': "satyo_outputs (take 100 sats') s0'"
    using satyo_main_launch [OF assms(2)] by (simp add: satyo_outputs_def launch_def)
  have t': "tracks packet_from (take 100 sats') ?r'"
    by (rule run_tracks [OF satyo_acquire_from t0'])
  have w': "satyo_outputs (take 100 sats') ?r'"
    by (rule satyo_run_outputs [OF t0' w0'])
  have a: "\<exists>i < min 100 (length sats).
             node_name d = sat_name (sats ! i) \<and> node_id d = satnum (sats ! i) \<and>
             length (binary_blob d) = 28 \<and>
             unpack_be (take 4 (binary_blob d)) = nat (satnum (sats ! i))"
    if "d \<in> set (bus ?r) \<or> d \<in> set (dumped (JSON_STREAM (files ?r)))" for d
  proof -
    from that tracks_bus [OF t] satlen_outputs_dumped [OF w]
    have "\<exists>sat \<in> set (take 100 sats). telemetry_from d sat" by (elim disjE) assumption+
    then obtain sat where "sat \<in> set (take 100 sats)" and o: "telemetry_from d sat" ..
    then obtain i where "i < min 100 (length sats)" and "sat = sats ! i"
      using in_take_nth [of sat 100 sats] by blast
    with o show ?thesis unfolding telemetry_from_def by blast
  qed
  have l: "\<exists>i < min 100 (length sats). line_node x = satnum (sats ! i)"
    if "x \<in> set (RECOVERY_LOG (files ?r))" for x
  proof -
    from satlen_outputs_recovery [OF w that]
    obtain sat where "sat \<in> set (take 100 sats)" and o: "line_node x = satnum sat" ..
    then obtain i where "i < min 100 (length sats)" and "sat = sats ! i"
      using in_take_nth [of sat 100 sats] by blast
    with o show ?thesis by blast
  qed
  have b: "\<exists>i < min 100 (length sats').
             node p = sat_name (sats' ! i) \<and> ident p = satnum (sats' ! i) \<and>
             fromhex (binary_payload p) = Inr (payload_bytes p) \<and>
             length (payload_bytes p) = 28 \<and>
             unpack_be (take 4 (payload_bytes p)) = nat (satnum (sats' ! i))"
    if "p \<in> set (bus ?r') \<or> p \<in> set (dumped (DATA_MATRIX_FILE (files ?r')))" for p
  proof -
    from that tracks_bus [OF t'] satyo_outputs_dumped [OF w']
    have "\<exists>sat \<in> set (take 100 sats'). packet_from p sat" by (elim disjE) assumption+
    then obtain sat where "sat \<in> set (take 100 sats')" and o: "packet_from p sat" ..
    then obtain i where "i < min 100 (length sats')" and "sat = sats' ! i"
      using in_take_nth [of sat 100 sats'] by blast
    with o show ?thesis unfolding packet_from_def by blast
  qed
  show ?thesis
    apply (intro conjI allI impI)
            apply (rule tracks_swarm [OF t])
           apply (rule tracks_rest [OF t])
          apply (erule a)
         apply (rule satlen_outputs_binary [OF w])
        apply (erule l)
       apply (rule tracks_swarm [OF t'])
      apply (rule tracks_rest [OF t'])
     apply (erule b)
    apply (rule satyo_outputs_binary [OF w'])
    done
qed

lemma satlen_main_101:
  "satlen_main (Inr (replicate 100 iss @ [debris])) =
   Inr (launch (iss # replicate 99 iss) ()
          \<lparr>BINARY_LOG = [], JSON_STREAM = [], RECOVERY_LOG = []\<rparr>)"
  by (simp add: satlen_main_def SatelliteKernel_init_def replicate_100)

lemma satyo_main_101:
  "satyo_main False (Inr (replicate 100 iss @ [debris])) =
   Inr (launch (iss # replicate 99 iss) \<lparr>ghost_enabled = False, ghost_vault = Map.empty\<rparr>
          \<lparr>BINARY_CORE_FILE = [], DATA_MATRIX_FILE = []\<rparr>)"
  by (simp add: satyo_main_def boot_sequence_def replicate_100)

lemma replicate_99: "replicate 99 x = x # replicate 98 x"
  by (simp add: replicate_Suc [symmetric] del: replicate_Suc)

lemma iss_telemetry_fields:
  "node_id (iss_telemetry x) = 25544" "snr (iss_telemetry x) = x"
  "binary_blob (iss_telemetry x) =
     [0, 0, 99, 200, 65, 70, 184, 82, 67, 16, 30, 184, 67, 205, 0, 0,
      57, 67, 245, 7, 65, 217, 84, 252, 64, 32, 0, 0]"
  by (simp_all add: iss_telemetry_def)

lemma scenario_snr_low: "float_less_int 0x402B95B651E7AC20 20"
  by (simp add: value_defs)

lemma iss_payload:
  "fromhex (binary_payload iss_packet) =
   Inr [0, 0, 99, 200, 65, 70, 184, 82, 67, 16, 30, 184, 67, 205, 0, 0, 0, 0, 0, 0,
        65, 217, 84, 252, 64, 32, 0, 0]"
proof -
  have "binary_payload iss_packet =
      hex [0, 0, 99, 200, 65, 70, 184, 82, 67, 16, 30, 184, 67, 205, 0, 0, 0, 0, 0, 0,
        65, 217, 84, 252, 64, 32, 0, 0]"
    by (simp add: iss_packet_def hex_def hex_digit_def)
  then show ?thesis by (simp only: fromhex_hex)
qed

lemma satlen_run_101:
  "bus (run (satlen scenario_float_ops mock_ephemeris) scenario_schedule
      (launch (iss # replicate 99 iss) ()
          \<lparr>BINARY_LOG = [], JSON_STREAM = [], RECOVERY_LOG = []\<rparr>)) =
     [iss_telemetry 0x402B95B651E7AC20] \<and>
   files (run (satlen scenario_float_ops mock_ephemeris) scenario_schedule
      (launch (iss # replicate 99 iss) ()
          \<lparr>BINARY_LOG = [], JSON_STREAM = [], RECOVERY_LOG = []\<rparr>)) =
     \<lparr>BINARY_LOG = [0, 0, 99, 200, 65, 70, 184, 82, 67, 16, 30, 184, 67, 205, 0, 0,
                    57, 67, 245, 7, 65, 217, 84, 252, 64, 32, 0, 0],
      JSON_STREAM = [Text ''[\<newline>'', Dump (iss_telemetry 0x402B95B651E7AC20), Text '',\<newline>''],
      RECOVERY_LOG = [\<lparr>line_time = 0x41D954FC40200000, line_node = 25544,
                       line_snr = 0x402B95B651E7AC20\<rparr>]\<rparr>"
  by (simp add: scenario_schedule_def step_def harvester_step_def consumer_step_def launch_def satlen_def
      scenario_handshake put_def full_def get_timeout_def storage_write_def Let_def
      iss_telemetry_fields scenario_snr_low replicate_99)

lemma satyo_run_101:
  "bus (run (satyo mock_ephemeris) scenario_schedule
      (launch (iss # replicate 99 iss) \<lparr>ghost_enabled = False, ghost_vault = Map.empty\<rparr>
          \<lparr>BINARY_CORE_FILE = [], DATA_MATRIX_FILE = []\<rparr>)) = [iss_packet] \<and>
   files (run (satyo mock_ephemeris) scenario_schedule
      (launch (iss # replicate 99 iss) \<lparr>ghost_enabled = False, ghost_vault = Map.empty\<rparr>
          \<lparr>BINARY_CORE_FILE = [], DATA_MATRIX_FILE = []\<rparr>)) =
     \<lparr>BINARY_CORE_FILE = ascii ''NEXUS-INTEL-V2-START'' @
        [0, 0, 99, 200, 65, 70, 184, 82, 67, 16, 30, 184, 67, 205, 0, 0, 0, 0, 0, 0,
         65, 217, 84, 252, 64, 32, 0, 0],
      DATA_MATRIX_FILE = [Dump iss_packet, Text ''\<newline>'']\<rparr>"
proof -
  have m: "calculate_quantum_metrics mock_ephemeris
      \<lparr>ghost_enabled = False, ghost_vault = Map.empty\<rparr> iss now 0x41D954FC40200000 =
    Inr (iss_packet, \<lparr>ghost_enabled = False, ghost_vault = Map.empty\<rparr>)" for now
    by (simp add: mock_metrics iss_packet_def)
  show ?thesis
    by (simp add: scenario_schedule_def step_def harvester_step_def consumer_step_def launch_def satyo_def
        m put_def full_def get_timeout_def storage_kernel_write_def iss_payload replicate_99)
qed

theorem only_first_100_tracked_witness:
  "satlen_main (Inr (replicate 100 iss @ [debris])) =
     Inr (launch (iss # replicate 99 iss) ()
            \<lparr>BINARY_LOG = [], JSON_STREAM = [], RECOVERY_LOG = []\<rparr>) \<and>
   satyo_main False (Inr (replicate 100 iss @ [debris])) =
     Inr (launch (iss # replicate 99 iss) \<lparr>ghost_enabled = False, ghost_vault = Map.empty\<rparr>
            \<lparr>BINARY_CORE_FILE = [], DATA_MATRIX_FILE = []\<rparr>) \<and>
   swarm (run (satlen scenario_float_ops mock_ephemeris) scenario_schedule
      (launch (iss # replicate 99 iss) ()
          \<lparr>BINARY_LOG = [], JSON_STREAM = [], RECOVERY_LOG = []\<rparr>)) =
     take 100 (replicate 100 iss @ [debris]) \<and>
   set (cycle_rest (pos (run (satlen scenario_float_ops mock_ephemeris) scenario_schedule
      (launch (iss # replicate 99 iss) ()
          \<lparr>BINARY_LOG = [], JSON_STREAM = [], RECOVERY_LOG = []\<rparr>)))) \<subseteq>
     set (take 100 (replicate 100 iss @ [debris])) \<and>
   bus (run (satlen scenario_float_ops mock_ephemeris) scenario_schedule
      (launch (iss # replicate 99 iss) ()
          \<lparr>BINARY_LOG = [], JSON_STREAM = [], RECOVERY_LOG = []\<rparr>)) =
     [iss_telemetry 0x402B95B651E7AC20] \<and>
   files (run (satlen scenario_float_ops mock_ephemeris) scenario_schedule
      (launch (iss # replicate 99 iss) ()
          \<lparr>BINARY_LOG = [], JSON_STREAM = [], RECOVERY_LOG = []\<rparr>)) =
     \<lparr>BINARY_LOG = [0, 0, 99, 200, 65, 70, 184, 82, 67, 16, 30, 184, 67, 205, 0, 0,
                    57, 67, 245, 7, 65, 217, 84, 252, 64, 32, 0, 0],
      JSON_STREAM = [Text ''[\<newline>'', Dump (iss_telemetry 0x402B95B651E7AC20), Text '',\<newline>''],
      RECOVERY_LOG = [\<lparr>line_time = 0x41D954FC40200000, line_node = 25544,
                       line_snr = 0x402B95B651E7AC20\<rparr>]\<rparr> \<and>
   (\<exists>i. i < min 100 (length (replicate 100 iss @ [debris])) \<and>
        node_name (iss_telemetry 0x402B95B651E7AC20) =
          sat_name ((replicate 100 iss @ [debris]) ! i) \<and>
        node_id (iss_telemetry 0x402B95B651E7AC20) =
          satnum ((replicate 100 iss @ [debris]) ! i) \<and>
        length (binary_blob (iss_telemetry 0x402B95B651E7AC20)) = 28 \<and>
        unpack_be (take 4 (binary_blob (iss_telemetry 0x402B95B651E7AC20))) =
          nat (satnum ((replicate 100 iss @ [debris]) ! i))) \<and>
   (\<exists>i. i < min 100 (length (replicate 100 iss @ [debris])) \<and>
        line_node \<lparr>line_time = 0x41D954FC40200000, line_node = 25544,
                   line_snr = 0x402B95B651E7AC20\<rparr> =
          satnum ((replicate 100 iss @ [debris]) ! i)) \<and>
   swarm (run (satyo mock_ephemeris) scenario_schedule
      (launch (iss # replicate 99 iss) \<lparr>ghost_enabled = False, ghost_vault = Map.empty\<rparr>
          \<lparr>BINARY_CORE_FILE = [], DATA_MATRIX_FILE = []\<rparr>)) =
     take 100 (replicate 100 iss @ [debris]) \<and>
   set (cycle_rest (pos (run (satyo mock_ephemeris) scenario_schedule
      (launch (iss # replicate 99 iss) \<lparr>ghost_enabled = False, ghost_vault = Map.empty\<rparr>
          \<lparr>BINARY_CORE_FILE = [], DATA_MATRIX_FILE = []\<rparr>)))) \<subseteq>
     set (take 100 (replicate 100 iss @ [debris])) \<and>
   bus (run (satyo mock_ephemeris) scenario_schedule
      (launch (iss # replicate 99 iss) \<lparr>ghost_enabled = False, ghost_vault = Map.empty\<rparr>
          \<lparr>BINARY_CORE_FILE = [], DATA_MATRIX_FILE = []\<rparr>)) = [iss_packet] \<and>
   files (run (satyo mock_ephemeris) scenario_schedule
      (launch (iss # replicate 99 iss) \<lparr>ghost_enabled = False, ghost_vault = Map.empty\<rparr>
          \<lparr>BINARY_CORE_FILE = [], DATA_MATRIX_FILE = []\<rparr>)) =
     \<lparr>BINARY_CORE_FILE = ascii ''NEXUS-INTEL-V2-START'' @
        [0, 0, 99, 200, 65, 70, 184, 82, 67, 16, 30, 184, 67, 205, 0, 0, 0, 0, 0, 0,
         65, 217, 84, 252, 64, 32, 0, 0],
      DATA_MATRIX_FILE = [Dump iss_packet, Text ''\<newline>'']\<rparr> \<and>
   (\<exists>i. i < min 100 (length (replicate 100 iss @ [debris])) \<and>
        node iss_packet = sat_name ((replicate 100 iss @ [debris]) ! i) \<and>
        ident iss_packet = satnum ((replicate 100 iss @ [debris]) ! i) \<and>
        fromhex (binary_payload iss_packet) = Inr (payload_bytes iss_packet) \<and>
        length (payload_bytes iss_packet) = 28 \<and>
        unpack_be (take 4 (payload_bytes iss_packet)) =
          nat (satnum ((replicate 100 iss @ [debris]) ! i)))"
proof -
  let ?a = "run (satlen scenario_float_ops mock_ephemeris) scenario_schedule
      (launch (iss # replicate 99 iss) ()
          \<lparr>BINARY_LOG = [], JSON_STREAM = [], RECOVERY_LOG = []\<rparr>)"
  let ?b = "run (satyo mock_ephemeris) scenario_schedule
      (launch (iss # replicate 99 iss) \<lparr>ghost_enabled = False, ghost_vault = Map.empty\<rparr>
          \<lparr>BINARY_CORE_FILE = [], DATA_MATRIX_FILE = []\<rparr>)"
  note inst = only_first_100_tracked [OF satlen_main_101 satyo_main_101,
      of scenario_float_ops mock_ephemeris scenario_schedule mock_ephemeris scenario_schedule]
  have a: "iss_telemetry 0x402B95B651E7AC20 \<in> set (bus ?a)"
    using satlen_run_101 by simp
  have l: "\<lparr>line_time = 0x41D954FC40200000, line_node = 25544,
             line_snr = 0x402B95B651E7AC20\<rparr> \<in> set (RECOVERY_LOG (files ?a))"
    using satlen_run_101 by simp
  have b: "iss_packet \<in> set (bus ?b)"
    using satyo_run_101 by simp
  from inst a have c: "\<exists>i. i < min 100 (length (replicate 100 iss @ [debris])) \<and>
        node_name (iss_telemetry 0x402B95B651E7AC20) =
          sat_name ((replicate 100 iss @ [debris]) ! i) \<and>
        node_id (iss_telemetry 0x402B95B651E7AC20) =
          satnum ((replicate 100 iss @ [debris]) ! i) \<and>
        length (binary_blob (iss_telemetry 0x402B95B651E7AC20)) = 28 \<and>
        unpack_be (take 4 (binary_blob (iss_telemetry 0x402B95B651E7AC20))) =
          nat (satnum ((replicate 100 iss @ [debris]) ! i))" by blast
  from inst l have m: "\<exists>i. i < min 100 (length (replicate 100 iss @ [debris])) \<and>
        line_node \<lparr>line_time = 0x41D954FC40200000, line_node = 25544,
                   line_snr = 0x402B95B651E7AC20\<rparr> =
          satnum ((replicate 100 iss @ [debris]) ! i)" by blast
  from inst b have d: "\<exists>i. i < min 100 (length (replicate 100 iss @ [debris])) \<and>
        node iss_packet = sat_name ((replicate 100 iss @ [debris]) ! i) \<and>
        ident iss_packet = satnum ((replicate 100 iss @ [debris]) ! i) \<and>
        fromhex (binary_payload iss_packet) = Inr (payload_bytes iss_packet) \<and>
        length (payload_bytes iss_packet) = 28 \<and>
        unpack_be (take 4 (payload_bytes iss_packet)) =
          nat (satnum ((replicate 100 iss @ [debris]) ! i))" by blast
  from inst have e: "swarm ?a = take 100 (replicate 100 iss @ [debris])" by blast
  from inst have f: "swarm ?b = take 100 (replicate 100 iss @ [debris])" by blast
  from inst have g: "set (cycle_rest (pos ?a)) \<subseteq> set (take 100 (replicate 100 iss @ [debris]))"
    by blast
  from inst have h: "set (cycle_rest (pos ?b)) \<subseteq> set (take 100 (replicate 100 iss @ [debris]))"
    by blast
  show ?thesis
    using satlen_main_101 satyo_main_101 satlen_run_101 satyo_run_101 c m d e f g h by blast
qed

end
